theory Spec2Isabelle
  imports Complex_Main "HOL-Library.Sublist" "HOL-Library.Multiset"
begin

section \<open>Python string operations used by the agent\<close>

text \<open>
  Strings are lists of characters. The agent only ever matches ASCII keywords, so
  \<open>str.lower()\<close> is modelled on the 26 ASCII capitals and leaves every other character
  alone; \<open>str.split()\<close> without arguments cuts at runs of ASCII whitespace and never
  returns an empty word.
\<close>

definition lower_char :: "char \<Rightarrow> char" where
  "lower_char c =
     (case map_of (zip ''ABCDEFGHIJKLMNOPQRSTUVWXYZ'' ''abcdefghijklmnopqrstuvwxyz'') c of
        Some l \<Rightarrow> l
      | None \<Rightarrow> c)"

definition lower :: "string \<Rightarrow> string" where
  "lower s = map lower_char s"

text \<open>\<open>sub in s\<close> for strings: \<open>sub\<close> occurs as a contiguous piece of \<open>s\<close>.\<close>

fun str_in :: "string \<Rightarrow> string \<Rightarrow> bool" where
  "str_in sub [] = (sub = [])"
| "str_in sub (c # cs) = (prefix sub (c # cs) \<or> str_in sub cs)"

definition is_space :: "char \<Rightarrow> bool" where
  "is_space c \<longleftrightarrow> c \<in> set [CHR '' '', CHR 0x09, CHR 0x0A, CHR 0x0B, CHR 0x0C, CHR 0x0D,
                          CHR 0x1C, CHR 0x1D, CHR 0x1E, CHR 0x1F]"

text \<open>\<open>s.split()\<close>: \<open>cur\<close> is the word being read.\<close>

fun split_from :: "string \<Rightarrow> string \<Rightarrow> string list" where
  "split_from cur [] = (if cur = [] then [] else [cur])"
| "split_from cur (c # cs) =
     (if is_space c then (if cur = [] then split_from [] cs else cur # split_from [] cs)
      else split_from (cur @ [c]) cs)"

definition str_split :: "string \<Rightarrow> string list" where
  "str_split s = split_from [] s"

text \<open>
  \<open>s.count(sub)\<close>: the number of non-overlapping occurrences, scanning from the left;
  the empty string occurs \<open>len(s) + 1\<close> times.
\<close>

function str_count :: "string \<Rightarrow> string \<Rightarrow> nat" where
  "str_count s sub =
     (if sub = [] then length s + 1
      else if length s < length sub then 0
      else if prefix sub s then 1 + str_count (drop (length sub) s) sub
      else str_count (tl s) sub)"
  by pat_completeness auto
termination
  by (relation "measure (\<lambda>(s, sub). length s)") (auto simp: neq_Nil_conv)

declare str_count.simps [simp del]

text \<open>\<open>sep.join(xs)\<close> and \<open>s.strip()\<close>.\<close>

fun str_join :: "string \<Rightarrow> string list \<Rightarrow> string" where
  "str_join sep [] = []"
| "str_join sep [x] = x"
| "str_join sep (x # y # ys) = x @ sep @ str_join sep (y # ys)"

definition str_strip :: "string \<Rightarrow> string" where
  "str_strip s = rev (dropWhile is_space (rev (dropWhile is_space s)))"

text \<open>\<open>str(n)\<close> for an integer.\<close>

function show_nat :: "nat \<Rightarrow> string" where
  "show_nat n =
     (if n < 10 then [''0123456789'' ! n]
      else show_nat (n div 10) @ [''0123456789'' ! (n mod 10)])"
  by pat_completeness auto
termination
  by (relation "measure id") auto

declare show_nat.simps [simp del]

definition show_int :: "int \<Rightarrow> string" where
  "show_int i = (if i < 0 then ''-'' @ show_nat (nat (- i)) else show_nat (nat i))"

section \<open>NUSTRAGSystem: the knowledge retriever\<close>

record Document =
  page_content :: string
  metadata :: "(string \<times> string) list"

text \<open>The four built-in documents of \<open>_create_basic_nust_data\<close>.\<close>

definition basic_nust_info :: "Document list" where
  "basic_nust_info =
     [\<lparr>page_content = ''NUST (National University of Sciences and Technology) is a premier technological university in Pakistan located in Islamabad. It was established in 1991 and offers undergraduate, graduate, and doctoral programs in engineering, sciences, and technology.'',
       metadata = [(''title'', ''NUST Overview''), (''source'', ''basic'')]\<rparr>,
      \<lparr>page_content = ''NUST has multiple schools including School of Electrical Engineering and Computer Science (SEECS), School of Mechanical and Manufacturing Engineering (SMME), School of Civil and Environmental Engineering (SCEE), School of Chemical and Materials Engineering (SCME), and School of Natural Sciences (SNS).'',
       metadata = [(''title'', ''NUST Schools''), (''source'', ''basic'')]\<rparr>,
      \<lparr>page_content = ''NUST admission is through NET (NUST Entry Test) conducted annually. The university offers scholarships and financial aid to deserving students. Campus facilities include hostels, cafeteria, library, sports complex, and medical center.'',
       metadata = [(''title'', ''NUST Admissions and Facilities''), (''source'', ''basic'')]\<rparr>,
      \<lparr>page_content = ''NUST is known for its research excellence and industry partnerships. It has collaborations with international universities and offers exchange programs. The university emphasizes innovation and entrepreneurship.'',
       metadata = [(''title'', ''NUST Research and Partnerships''), (''source'', ''basic'')]\<rparr>]"

text \<open>\<open>str(doc.metadata.get("title", ""))\<close>\<close>

definition doc_title :: "Document \<Rightarrow> string" where
  "doc_title doc = (case map_of (metadata doc) ''title'' of Some t \<Rightarrow> t | None \<Rightarrow> '''')"

text \<open>The inner loop of \<open>retrieve_context\<close> over the keywords, \<open>score\<close> being the running sum.\<close>

fun score_keywords :: "string \<Rightarrow> string \<Rightarrow> string list \<Rightarrow> nat \<Rightarrow> nat" where
  "score_keywords content title [] score = score"
| "score_keywords content title (keyword # rest) score =
     (let score1 = (if str_in keyword content then score + str_count content keyword else score);
          score2 = (if str_in keyword title then score1 + str_count title keyword * 2 else score1)
      in score_keywords content title rest score2)"

definition doc_score :: "string list \<Rightarrow> Document \<Rightarrow> nat" where
  "doc_score keywords doc =
     score_keywords (lower (page_content doc)) (lower (doc_title doc)) keywords 0"

text \<open>The outer loop: \<open>scored_docs\<close> collects the documents of positive score, in corpus order.\<close>

fun score_docs :: "string list \<Rightarrow> Document list \<Rightarrow> (Document \<times> nat) list" where
  "score_docs keywords [] = []"
| "score_docs keywords (doc # docs) =
     (let score = doc_score keywords doc in
      if score > 0 then (doc, score) # score_docs keywords docs
      else score_docs keywords docs)"

text \<open>
  \<open>scored_docs.sort(key=lambda x: x[1], reverse=True)\<close>: CPython reverses the list, sorts it
  stably by the key and reverses the result, so equal scores keep their order.
\<close>

definition sort_reverse :: "(Document \<times> nat) list \<Rightarrow> (Document \<times> nat) list" where
  "sort_reverse xs = rev (sort_key snd (rev xs))"

definition retrieve_context :: "Document list \<Rightarrow> string \<Rightarrow> Document list" where
  "retrieve_context docs q =
     (if docs \<noteq> [] then
        (let keywords = str_split (lower q);
             scored_docs = sort_reverse (score_docs keywords docs)
         in map fst (take 3 scored_docs))
      else [])"


section \<open>Messages, graph state, collaborators and the mutable world\<close>

type_synonym timestamp = int

datatype json =
    JNull
  | JBool bool
  | JInt int
  | JNum rat
  | JStr string
  | JList "json list"
  | JObj "(string \<times> json) list"

datatype tool_call =
  ToolCall (tc_name: string) (tc_args: "(string \<times> string) list") (tc_id: string)

text \<open>
  A tool message carries the text the tool returned. The tools return \<open>json.dumps\<close> of a
  dictionary, kept here as the dictionary itself; a plain text is a \<open>JStr\<close>.
\<close>

datatype message =
    HumanMessage string
  | AIMessage string "tool_call list"
  | ToolMessage json string

text \<open>
  The fields \<open>context\<close>, \<open>web_search_results\<close>, \<open>rag_results\<close> and \<open>user_context\<close> of the
  source are initialised empty and never read or written by a node; they are left out.
\<close>

record UnifiedAgentState =
  messages :: "message list"
  query :: string
  operation_type :: string
  final_answer :: string
  session_id :: string

record student =
  st_id :: string
  st_name :: string
  st_department :: string
  st_email :: string
  st_created_at :: timestamp
  st_last_active :: timestamp
  st_is_active :: bool

record activity_log =
  al_student_id :: string
  al_activity :: string
  al_timestamp :: timestamp

record database =
  students :: "student list"
  activity_logs :: "activity_log list"

record email_result =
  er_success :: bool
  er_message :: string

datatype email_call =
    WelcomeEmail string string string string string
  | UpdateNotification string string string string string string

record history_entry =
  h_role :: string
  h_content :: string
  h_timestamp :: timestamp

record session =
  s_session_id :: string
  s_user_id :: string
  s_created_at :: timestamp
  s_last_activity :: timestamp
  conversation_history :: "history_entry list"

text \<open>
  Everything outside the agent is a parameter: the error SQLite raises inside a
  \<open>DatabaseManager\<close> method (by method name, \<open>None\<close> when it runs through), the outcome of
  each notification call (\<open>Inl\<close> the text of a raised exception), the corpus, the search
  provider (\<open>None\<close> when \<open>DDGS()\<close> could not be built), the language model, LangGraph's
  recursion limit, the clock and the UUID generator (indexed by the place where they are
  read).
\<close>

record environment =
  db_fault :: "string \<Rightarrow> string option"
  db_now :: timestamp
  send_welcome_email ::
    "string \<Rightarrow> string \<Rightarrow> string \<Rightarrow> string \<Rightarrow> string \<Rightarrow> string + email_result"
  send_update_notification ::
    "string \<Rightarrow> string \<Rightarrow> string \<Rightarrow> string \<Rightarrow> string \<Rightarrow> string \<Rightarrow> string + email_result"
  json_docs :: "Document list"
  ddgs :: "(string \<Rightarrow> nat \<Rightarrow> string + (string \<times> string) list list) option"
  llm_invoke :: "message list \<Rightarrow> string + string"
  llm_with_tools_invoke :: "message list \<Rightarrow> string + string \<times> tool_call list"
  llm_astream :: "(message list \<Rightarrow> string list \<times> string option) option"
  llm_ainvoke :: "message list \<Rightarrow> string + string"
  recursion_limit :: nat
  clock :: "nat \<Rightarrow> timestamp"
  uuid4 :: "nat \<Rightarrow> string"

text \<open>
  What the agent changes: its session dictionary, the database, and the calls it made to
  the notification service and to the search provider, in order.
\<close>

record world =
  sessions :: "string \<rightharpoonup> session"
  db :: database
  email_calls :: "email_call list"
  search_calls :: "(string \<times> nat) list"

section \<open>DatabaseManager: the student registry\<close>

definition add_student ::
  "environment \<Rightarrow> database \<Rightarrow> string \<Rightarrow> string \<Rightarrow> string \<Rightarrow> string \<Rightarrow> database \<times> bool" where
  "add_student env d student_id nm dept eml =
     (case db_fault env ''add_student'' of
        Some e \<Rightarrow> (d, False)
      | None \<Rightarrow>
          if \<exists>s \<in> set (students d). st_id s = student_id \<or> st_email s = eml then (d, False)
          else
            (d\<lparr>students := students d @
                  [\<lparr>st_id = student_id, st_name = nm, st_department = dept, st_email = eml,
                    st_created_at = db_now env, st_last_active = db_now env,
                    st_is_active = True\<rparr>],
               activity_logs := activity_logs d @
                  [\<lparr>al_student_id = student_id, al_activity = ''Student registered'',
                    al_timestamp = db_now env\<rparr>]\<rparr>,
             True))"

definition get_student ::
  "environment \<Rightarrow> database \<Rightarrow> string \<Rightarrow> string + student option" where
  "get_student env d student_id =
     (case db_fault env ''get_student'' of
        Some e \<Rightarrow> Inl e
      | None \<Rightarrow> Inr (find (\<lambda>s. st_id s = student_id) (students d)))"

definition set_field :: "string \<Rightarrow> string \<Rightarrow> student \<Rightarrow> student" where
  "set_field field new_value s =
     (if field = ''name'' then s\<lparr>st_name := new_value\<rparr>
      else if field = ''department'' then s\<lparr>st_department := new_value\<rparr>
      else s\<lparr>st_email := new_value\<rparr>)"

text \<open>
  \<open>UPDATE students SET field = ?, last_active = CURRENT_TIMESTAMP WHERE id = ?\<close> changes no
  row when the id is absent, and the activity log row is inserted all the same (SQLite
  does not enforce the foreign key unless asked to). An email already held by another
  row violates the UNIQUE constraint; the exception is caught and the result is False.
\<close>

definition update_student ::
  "environment \<Rightarrow> database \<Rightarrow> string \<Rightarrow> string \<Rightarrow> string \<Rightarrow> database \<times> bool" where
  "update_student env d student_id field new_value =
     (if field \<notin> set [''name'', ''department'', ''email''] then (d, False)
      else
        (case db_fault env ''update_student'' of
           Some e \<Rightarrow> (d, False)
         | None \<Rightarrow>
             if field = ''email'' \<and> (\<exists>s \<in> set (students d). st_id s = student_id)
                \<and> (\<exists>s \<in> set (students d). st_id s \<noteq> student_id \<and> st_email s = new_value)
             then (d, False)
             else
               (d\<lparr>students :=
                     map (\<lambda>s. if st_id s = student_id
                               then set_field field new_value (s\<lparr>st_last_active := db_now env\<rparr>)
                               else s) (students d),
                  activity_logs := activity_logs d @
                     [\<lparr>al_student_id = student_id, al_activity = ''Updated '' @ field,
                       al_timestamp = db_now env\<rparr>]\<rparr>,
                True)))"

definition delete_student :: "environment \<Rightarrow> database \<Rightarrow> string \<Rightarrow> database \<times> bool" where
  "delete_student env d student_id =
     (case db_fault env ''delete_student'' of
        Some e \<Rightarrow> (d, False)
      | None \<Rightarrow>
          (d\<lparr>students := filter (\<lambda>s. st_id s \<noteq> student_id) (students d),
             activity_logs := filter (\<lambda>l. al_student_id l \<noteq> student_id) (activity_logs d)\<rparr>,
           True))"

text \<open>\<open>ORDER BY created_at DESC\<close>; the order among equal timestamps is SQLite's choice.\<close>

definition list_students :: "environment \<Rightarrow> database \<Rightarrow> string + student list" where
  "list_students env d =
     (case db_fault env ''list_students'' of
        Some e \<Rightarrow> Inl e
      | None \<Rightarrow> Inr (rev (sort_key st_created_at (students d))))"

subsection \<open>Campus analytics\<close>

record campus_analytics =
  total_students :: nat
  department_breakdown :: "(string \<times> nat) list"
  recent_enrollments :: nat
  active_last_7_days :: nat
  activity_rate :: rat

text \<open>
  \<open>SELECT department, COUNT(*) FROM students GROUP BY department\<close>, read into a dictionary:
  every row adds one to the group of its department.
\<close>

fun count_department :: "string \<Rightarrow> (string \<times> nat) list \<Rightarrow> (string \<times> nat) list" where
  "count_department dept [] = [(dept, 1)]"
| "count_department dept ((k, n) # groups) =
     (if k = dept then (k, Suc n) # groups else (k, n) # count_department dept groups)"

definition group_by_department :: "student list \<Rightarrow> (string \<times> nat) list" where
  "group_by_department rows = foldl (\<lambda>groups s. count_department (st_department s) groups) [] rows"

definition seven_days :: int where
  "seven_days = 7 * 24 * 60 * 60"

text \<open>
  Python's \<open>round(x, 2)\<close>. Floats are modelled by exact rationals; \<open>round\<close> rounds the value
  it is given to the nearest multiple of 1/100, a tie going to the even neighbour.
\<close>

definition round_half_even :: "rat \<Rightarrow> int" where
  "round_half_even y =
     (let f = \<lfloor>y\<rfloor>; r = y - of_int f in
      if r < 1 / 2 then f else if 1 / 2 < r then f + 1 else if even f then f else f + 1)"

definition round2 :: "rat \<Rightarrow> rat" where
  "round2 x = of_int (round_half_even (x * 100)) / 100"

definition get_campus_analytics :: "environment \<Rightarrow> database \<Rightarrow> string + campus_analytics" where
  "get_campus_analytics env d =
     (case db_fault env ''get_campus_analytics'' of
        Some e \<Rightarrow> Inl e
      | None \<Rightarrow>
          (let total = length (students d);
               dept_breakdown = group_by_department (students d);
               recent = length (filter (\<lambda>s. db_now env - seven_days < st_created_at s) (students d));
               active = length (remdups (map al_student_id
                          (filter (\<lambda>l. db_now env - seven_days < al_timestamp l) (activity_logs d))))
           in Inr \<lparr>total_students = total,
                   department_breakdown = dept_breakdown,
                   recent_enrollments = recent,
                   active_last_7_days = active,
                   activity_rate = round2 ((of_nat active / of_nat (max total 1)) * 100)\<rparr>))"

section \<open>The tools of the agent\<close>

datatype sql_value = TextVal string | IntVal int

text \<open>\<open>dict(zip(columns, row))\<close>\<close>

definition student_row :: "student \<Rightarrow> (string \<times> sql_value) list" where
  "student_row s =
     [(''id'', TextVal (st_id s)), (''name'', TextVal (st_name s)),
      (''department'', TextVal (st_department s)), (''email'', TextVal (st_email s)),
      (''created_at'', IntVal (st_created_at s)), (''last_active'', IntVal (st_last_active s)),
      (''is_active'', IntVal (if st_is_active s then 1 else 0))]"

definition str_value :: "sql_value \<Rightarrow> string" where
  "str_value v = (case v of TextVal t \<Rightarrow> t | IntVal i \<Rightarrow> show_int i)"

definition json_value :: "sql_value \<Rightarrow> json" where
  "json_value v = (case v of TextVal t \<Rightarrow> JStr t | IntVal i \<Rightarrow> JInt i)"

definition student_json :: "student \<Rightarrow> json" where
  "student_json s = JObj (map (\<lambda>(k, v). (k, json_value v)) (student_row s))"

text \<open>Reading a key of a result dictionary.\<close>

definition json_get :: "json \<Rightarrow> string \<Rightarrow> json option" where
  "json_get j k = (case j of JObj kvs \<Rightarrow> map_of kvs k | _ \<Rightarrow> None)"

definition add_student_tool ::
  "environment \<Rightarrow> world \<Rightarrow> string \<Rightarrow> string \<Rightarrow> string \<Rightarrow> string \<Rightarrow> json \<times> world" where
  "add_student_tool env w nm student_id department eml =
     (case add_student env (db w) student_id nm department eml of
        (d, success) \<Rightarrow>
          if success then
            (let w1 = w\<lparr>db := d,
                        email_calls := email_calls w @
                          [WelcomeEmail student_id eml nm department eml]\<rparr>
             in case send_welcome_email env student_id eml nm department eml of
                  Inr email_result \<Rightarrow>
                    (JObj [(''success'', JBool True),
                           (''message'', JStr (''Student '' @ nm @ '' (ID: '' @ student_id
                                                 @ '') added successfully'')),
                           (''email_sent'', JBool (er_success email_result)),
                           (''email_status'', JStr (er_message email_result))], w1)
                | Inl e \<Rightarrow>
                    (JObj [(''success'', JBool True),
                           (''message'', JStr (''Student '' @ nm @ '' added but email failed: '' @ e))],
                     w1))
          else
            (JObj [(''success'', JBool False),
                   (''message'', JStr ''Failed to add student. ID or email might already exist.'')],
             w\<lparr>db := d\<rparr>))"

definition get_student_info :: "environment \<Rightarrow> world \<Rightarrow> string \<Rightarrow> json \<times> world" where
  "get_student_info env w student_id =
     (case get_student env (db w) student_id of
        Inl e \<Rightarrow> (JObj [(''error'', JStr (''Failed to get student: '' @ e))], w)
      | Inr None \<Rightarrow>
          (JObj [(''success'', JBool False),
                 (''message'', JStr (''Student with ID '' @ student_id @ '' not found''))], w)
      | Inr (Some s) \<Rightarrow>
          (JObj [(''success'', JBool True), (''student'', student_json s)], w))"

definition update_student_info ::
  "environment \<Rightarrow> world \<Rightarrow> string \<Rightarrow> string \<Rightarrow> string \<Rightarrow> json \<times> world" where
  "update_student_info env w student_id field new_value =
     (case get_student env (db w) student_id of
        Inl e \<Rightarrow> (JObj [(''error'', JStr (''Failed to update student: '' @ e))], w)
      | Inr None \<Rightarrow>
          (JObj [(''success'', JBool False),
                 (''message'', JStr (''Student with ID '' @ student_id @ '' not found''))], w)
      | Inr (Some s) \<Rightarrow>
          (let old_value = (case map_of (student_row s) field of
                              Some v \<Rightarrow> v | None \<Rightarrow> TextVal ''N/A'')
           in case update_student env (db w) student_id field new_value of
                (d, success) \<Rightarrow>
                  if success then
                    (let w1 = w\<lparr>db := d,
                                email_calls := email_calls w @
                                  [UpdateNotification student_id (st_email s) (st_name s)
                                     field (str_value old_value) new_value]\<rparr>
                     in case send_update_notification env student_id (st_email s) (st_name s)
                               field (str_value old_value) new_value of
                          Inr email_result \<Rightarrow>
                            (JObj [(''success'', JBool True),
                                   (''message'', JStr (''Student '' @ student_id @ '' '' @ field
                                       @ '' updated to '' @ [CHR 0x27] @ new_value @ [CHR 0x27])),
                                   (''email_sent'', JBool (er_success email_result))], w1)
                        | Inl e \<Rightarrow>
                            (JObj [(''success'', JBool True),
                                   (''message'', JStr (''Student updated but notification failed: '' @ e))],
                             w1))
                  else
                    (JObj [(''success'', JBool False),
                           (''message'', JStr (''Failed to update '' @ field @ ''. Invalid field name.''))],
                     w\<lparr>db := d\<rparr>)))"

definition delete_student_tool :: "environment \<Rightarrow> world \<Rightarrow> string \<Rightarrow> json \<times> world" where
  "delete_student_tool env w student_id =
     (case get_student env (db w) student_id of
        Inl e \<Rightarrow> (JObj [(''error'', JStr (''Failed to delete student: '' @ e))], w)
      | Inr None \<Rightarrow>
          (JObj [(''success'', JBool False),
                 (''message'', JStr (''Student with ID '' @ student_id @ '' not found''))], w)
      | Inr (Some s) \<Rightarrow>
          (case delete_student env (db w) student_id of
             (d, success) \<Rightarrow>
               if success then
                 (JObj [(''success'', JBool True),
                        (''message'', JStr (''Student '' @ student_id
                            @ '' deleted successfully (No email notification sent)'')),
                        (''email_sent'', JBool False)],
                  w\<lparr>db := d\<rparr>)
               else
                 (JObj [(''success'', JBool False), (''message'', JStr ''Failed to delete student'')],
                  w\<lparr>db := d\<rparr>)))"

definition list_all_students :: "environment \<Rightarrow> world \<Rightarrow> json \<times> world" where
  "list_all_students env w =
     (case list_students env (db w) of
        Inl e \<Rightarrow> (JObj [(''error'', JStr (''Failed to list students: '' @ e))], w)
      | Inr rows \<Rightarrow>
          (JObj [(''success'', JBool True), (''total_count'', JInt (int (length rows))),
                 (''students'', JList (map student_json rows))], w))"

definition analytics_json :: "campus_analytics \<Rightarrow> json" where
  "analytics_json a =
     JObj [(''total_students'', JInt (int (total_students a))),
           (''department_breakdown'',
              JObj (map (\<lambda>(k, n). (k, JInt (int n))) (department_breakdown a))),
           (''recent_enrollments'', JInt (int (recent_enrollments a))),
           (''active_last_7_days'', JInt (int (active_last_7_days a))),
           (''activity_rate'', JNum (activity_rate a))]"

definition get_campus_analytics_tool :: "environment \<Rightarrow> world \<Rightarrow> json \<times> world" where
  "get_campus_analytics_tool env w =
     (case get_campus_analytics env (db w) of
        Inl e \<Rightarrow> (JObj [(''error'', JStr (''Failed to get analytics: '' @ e))], w)
      | Inr a \<Rightarrow>
          (JObj [(''success'', JBool True), (''analytics'', analytics_json a),
                 (''timestamp'', JInt (clock env 0))], w))"

text \<open>
  \<open>tool.invoke(tool_args)\<close> for the tool of a given name: \<open>None\<close> when no tool has that
  name, \<open>Inl\<close> when the arguments do not fit the tool's schema (the library raises before
  the tool runs; its message is stood for by the name of the missing argument).
\<close>

definition arg :: "(string \<times> string) list \<Rightarrow> string \<Rightarrow> string + string" where
  "arg args k = (case map_of args k of Some v \<Rightarrow> Inr v | None \<Rightarrow> Inl (''missing argument: '' @ k))"

definition invoke_tool ::
  "environment \<Rightarrow> world \<Rightarrow> string \<Rightarrow> (string \<times> string) list \<Rightarrow> (string + json) option \<times> world" where
  "invoke_tool env w tool_name args =
     (if tool_name = ''add_student_tool'' then
        (case (arg args ''name'', arg args ''student_id'', arg args ''department'', arg args ''email'') of
           (Inr nm, Inr student_id, Inr department, Inr eml) \<Rightarrow>
             (case add_student_tool env w nm student_id department eml of
                (r, w1) \<Rightarrow> (Some (Inr r), w1))
         | (Inl e, _, _, _) \<Rightarrow> (Some (Inl e), w)
         | (_, Inl e, _, _) \<Rightarrow> (Some (Inl e), w)
         | (_, _, Inl e, _) \<Rightarrow> (Some (Inl e), w)
         | (_, _, _, Inl e) \<Rightarrow> (Some (Inl e), w))
      else if tool_name = ''get_student_info'' then
        (case arg args ''student_id'' of
           Inr student_id \<Rightarrow>
             (case get_student_info env w student_id of (r, w1) \<Rightarrow> (Some (Inr r), w1))
         | Inl e \<Rightarrow> (Some (Inl e), w))
      else if tool_name = ''update_student_info'' then
        (case (arg args ''student_id'', arg args ''field'', arg args ''new_value'') of
           (Inr student_id, Inr field, Inr new_value) \<Rightarrow>
             (case update_student_info env w student_id field new_value of
                (r, w1) \<Rightarrow> (Some (Inr r), w1))
         | (Inl e, _, _) \<Rightarrow> (Some (Inl e), w)
         | (_, Inl e, _) \<Rightarrow> (Some (Inl e), w)
         | (_, _, Inl e) \<Rightarrow> (Some (Inl e), w))
      else if tool_name = ''delete_student_tool'' then
        (case arg args ''student_id'' of
           Inr student_id \<Rightarrow>
             (case delete_student_tool env w student_id of (r, w1) \<Rightarrow> (Some (Inr r), w1))
         | Inl e \<Rightarrow> (Some (Inl e), w))
      else if tool_name = ''list_all_students'' then
        (case list_all_students env w of (r, w1) \<Rightarrow> (Some (Inr r), w1))
      else if tool_name = ''get_campus_analytics'' then
        (case get_campus_analytics_tool env w of (r, w1) \<Rightarrow> (Some (Inr r), w1))
      else (None, w))"

section \<open>WebSearchTool\<close>

record search_result =
  sr_title :: string
  sr_snippet :: string
  sr_url :: string
  sr_source :: string

text \<open>\<open>result.get(key, "")\<close>\<close>

definition get_or_empty :: "(string \<times> string) list \<Rightarrow> string \<Rightarrow> string" where
  "get_or_empty result k = (case map_of result k of Some v \<Rightarrow> v | None \<Rightarrow> '''')"

definition search ::
  "environment \<Rightarrow> world \<Rightarrow> string \<Rightarrow> nat \<Rightarrow> search_result list \<times> world" where
  "search env w q max_results =
     (case ddgs env of
        None \<Rightarrow>
          ([\<lparr>sr_title = ''Search Unavailable'',
             sr_snippet = ''Web search is currently unavailable'',
             sr_url = '''', sr_source = ''Error''\<rparr>], w)
      | Some text \<Rightarrow>
          (let nust_query = (if str_in ''nust'' (lower q)
                             then ''NUST University Pakistan '' @ q else q);
               w1 = w\<lparr>search_calls := search_calls w @ [(nust_query, max_results)]\<rparr>
           in case text nust_query max_results of
                Inr search_results \<Rightarrow>
                  (map (\<lambda>result. \<lparr>sr_title = get_or_empty result ''title'',
                                   sr_snippet = get_or_empty result ''body'',
                                   sr_url = get_or_empty result ''href'',
                                   sr_source = ''DuckDuckGo''\<rparr>) search_results, w1)
              | Inl e \<Rightarrow>
                  ([\<lparr>sr_title = ''Search Error'',
                     sr_snippet = ''Could not perform web search: '' @ e,
                     sr_url = '''', sr_source = ''Error''\<rparr>], w1)))"

section \<open>The LangGraph workflow\<close>

definition nust_keywords :: "string list" where
  "nust_keywords =
     [''nust'', ''national university'', ''sciences technology'', ''islamabad university'']"

definition admin_keywords :: "string list" where
  "admin_keywords =
     [''add student'', ''delete student'', ''update student'', ''list students'',
      ''student info'', ''campus analytics'', ''statistics'']"

definition classify_query :: "UnifiedAgentState \<Rightarrow> UnifiedAgentState" where
  "classify_query state =
     (let q = lower (query state) in
      if \<exists>keyword \<in> set nust_keywords. str_in keyword q
        then state\<lparr>operation_type := ''nust_info''\<rparr>
      else if \<exists>keyword \<in> set admin_keywords. str_in keyword q
        then state\<lparr>operation_type := ''campus_admin''\<rparr>
      else state\<lparr>operation_type := ''general''\<rparr>)"

definition nust_system_prompt :: string where
  \<open>nust_system_prompt =
       ''You are a helpful assistant specializing in NUST University (National University of Sciences and Technology) information. \<newline>''
     @ ''            Use the provided context to answer questions about NUST University accurately and comprehensively.\<newline>''
     @ ''            If you don'' @ [CHR 0x27] @ ''t have specific information, be honest about it.\<newline>''
     @ ''            Focus only on NUST University-related information.''\<close>

definition system_message :: string where
  \<open>system_message =
       ''You are an intelligent Campus Administration Agent with access to student management tools and NUST University information. You can help with:\<newline>''
     @ ''\<newline>''
     @ ''CAMPUS ADMINISTRATION:\<newline>''
     @ ''- Add new students with automatic welcome emails\<newline>''
     @ ''- View and search student information\<newline>''
     @ ''- Update student details with notification emails\<newline>''
     @ ''- Delete student accounts (no email notifications for deletions)\<newline>''
     @ ''- Get comprehensive campus analytics and statistics\<newline>''
     @ ''\<newline>''
     @ ''NUST UNIVERSITY INFORMATION:\<newline>''
     @ ''- Answer questions about NUST University\<newline>''
     @ ''- Provide information about admissions, programs, facilities\<newline>''
     @ ''- Share details about schools, departments, and courses\<newline>''
     @ ''\<newline>''
     @ ''IMPORTANT POLICIES:\<newline>''
     @ ''- Student deletions do NOT send email notifications (this is intentional for privacy)\<newline>''
     @ ''- Only student additions and updates trigger automatic emails\<newline>''
     @ ''- Always be helpful, professional, and friendly\<newline>''
     @ ''- Use the appropriate tools for campus admin tasks\<newline>''
     @ ''- For NUST queries, provide comprehensive information\<newline>''
     @ ''\<newline>''
     @ ''When users ask to perform campus admin actions, use the appropriate tools and confirm success.\<newline>''
     @ ''For NUST information queries, provide detailed and helpful responses.''\<close>

definition system_prompt :: string where
  \<open>system_prompt =
       ''You are an intelligent Campus Administration Agent with access to student management tools and NUST University information. You can help with:\<newline>''
     @ ''\<newline>''
     @ ''CAMPUS ADMINISTRATION:\<newline>''
     @ ''- Add new students with automatic welcome emails\<newline>''
     @ ''- View and search student information  \<newline>''
     @ ''- Update student details with notification emails\<newline>''
     @ ''- Delete student accounts (no email notifications for deletions)\<newline>''
     @ ''- Get comprehensive campus analytics and statistics\<newline>''
     @ ''\<newline>''
     @ ''NUST UNIVERSITY INFORMATION:\<newline>''
     @ ''- Answer questions about NUST University\<newline>''
     @ ''- Provide information about admissions, programs, facilities\<newline>''
     @ ''- Share details about schools, departments, and courses\<newline>''
     @ ''\<newline>''
     @ ''Always be helpful, professional, and friendly. Provide detailed and informative responses.''\<close>

definition nust_human_prompt :: "string \<Rightarrow> string \<Rightarrow> string \<Rightarrow> string \<Rightarrow> string" where
  \<open>nust_human_prompt sys_prompt q context web_context =
       ''\<newline>''
     @ ''                System: ''
     @ sys_prompt
     @ ''\<newline>''
     @ ''                \<newline>''
     @ ''                Question: ''
     @ q
     @ ''\<newline>''
     @ ''                \<newline>''
     @ ''                NUST Knowledge Base Context:\<newline>''
     @ ''                ''
     @ context
     @ ''\<newline>''
     @ ''                \<newline>''
     @ ''                ''
     @ web_context
     @ ''\<newline>''
     @ ''                \<newline>''
     @ ''                Please provide a comprehensive answer about NUST University based on the available information.\<newline>''
     @ ''                ''\<close>

definition full_prompt_template :: "string \<Rightarrow> string \<Rightarrow> string \<Rightarrow> string \<Rightarrow> string" where
  \<open>full_prompt_template sys_prompt context_text history_text message =
       sys_prompt
     @ ''\<newline>''
     @ ''\<newline>''
     @ context_text
     @ ''\<newline>''
     @ ''Conversation History:\<newline>''
     @ history_text
     @ ''\<newline>''
     @ ''\<newline>''
     @ ''User: ''
     @ message
     @ ''\<newline>''
     @ ''Assistant: ''\<close>

definition web_context_of :: "search_result list \<Rightarrow> string" where
  "web_context_of web_results =
     (if web_results \<noteq> [] then
        ''\<newline>\<newline>Recent information:\<newline>''
          @ concat (map (\<lambda>result. ''- '' @ sr_title result @ '': '' @ sr_snippet result @ ''\<newline>'')
                        web_results)
      else '''')"

definition handle_nust_query ::
  "environment \<Rightarrow> world \<Rightarrow> UnifiedAgentState \<Rightarrow> UnifiedAgentState \<times> world" where
  "handle_nust_query env w state =
     (let q = query state;
          rag_docs = retrieve_context (json_docs env) q;
          context = (if rag_docs \<noteq> [] then str_join ''\<newline>'' (map page_content rag_docs) else '''')
      in case search env w q 3 of
           (web_results, w1) \<Rightarrow>
             (let web_context = web_context_of web_results;
                  msgs = [HumanMessage (nust_human_prompt nust_system_prompt q context web_context)]
              in case llm_invoke env msgs of
                   Inr content \<Rightarrow> (state\<lparr>final_answer := content\<rparr>, w1)
                 | Inl e \<Rightarrow>
                     (state\<lparr>final_answer :=
                        ''I apologize, but I encountered an error while processing your NUST query: '' @ e\<rparr>,
                      w1)))"

text \<open>\<open>call_model\<close> returns the one message that LangGraph appends to the state.\<close>

definition call_model :: "environment \<Rightarrow> UnifiedAgentState \<Rightarrow> message" where
  "call_model env state =
     (let full_messages = [HumanMessage system_message] @ messages state
      in case llm_with_tools_invoke env full_messages of
           Inr (content, calls) \<Rightarrow> AIMessage content calls
         | Inl e \<Rightarrow> AIMessage (''I encountered an error: '' @ e) [])"

text \<open>\<open>state["messages"][-1]\<close>\<close>

definition last_message :: "message list \<Rightarrow> string + message" where
  "last_message msgs =
     (case rev msgs of [] \<Rightarrow> Inl ''list index out of range'' | m # _ \<Rightarrow> Inr m)"

definition should_continue :: "UnifiedAgentState \<Rightarrow> string + string" where
  "should_continue state =
     (case last_message (messages state) of
        Inl e \<Rightarrow> Inl e
      | Inr (AIMessage content calls) \<Rightarrow> Inr (if calls \<noteq> [] then ''tools'' else ''__end__'')
      | Inr _ \<Rightarrow> Inr ''__end__'')"

text \<open>
  The loop of \<open>call_tools\<close> over the tool calls of the last message. A call whose name
  matches no tool adds no message; a call whose invocation raises adds the error text.
\<close>

fun run_tool_calls :: "environment \<Rightarrow> world \<Rightarrow> tool_call list \<Rightarrow> message list \<times> world" where
  "run_tool_calls env w [] = ([], w)"
| "run_tool_calls env w (tool_call # rest) =
     (case invoke_tool env w (tc_name tool_call) (tc_args tool_call) of
        (None, w1) \<Rightarrow> run_tool_calls env w1 rest
      | (Some (Inr result), w1) \<Rightarrow>
          (case run_tool_calls env w1 rest of
             (tool_responses, w2) \<Rightarrow> (ToolMessage result (tc_id tool_call) # tool_responses, w2))
      | (Some (Inl e), w1) \<Rightarrow>
          (case run_tool_calls env w1 rest of
             (tool_responses, w2) \<Rightarrow>
               (ToolMessage (JStr (''Error executing '' @ tc_name tool_call @ '': '' @ e))
                  (tc_id tool_call) # tool_responses, w2)))"

definition call_tools ::
  "environment \<Rightarrow> world \<Rightarrow> UnifiedAgentState \<Rightarrow> (string + message list) \<times> world" where
  "call_tools env w state =
     (case last_message (messages state) of
        Inl e \<Rightarrow> (Inl e, w)
      | Inr (AIMessage content calls) \<Rightarrow>
          (case run_tool_calls env w calls of (tool_responses, w1) \<Rightarrow> (Inr tool_responses, w1))
      | Inr _ \<Rightarrow> (Inl ''object has no attribute tool_calls'', w))"

text \<open>
  The cycle agent \<rightarrow> tools \<rightarrow> agent. LangGraph stops a run that exceeds its recursion
  limit by raising; the limit is counted here in rounds of the agent node.
\<close>

fun agent_loop ::
  "nat \<Rightarrow> environment \<Rightarrow> world \<Rightarrow> UnifiedAgentState \<Rightarrow> (string + UnifiedAgentState) \<times> world" where
  "agent_loop 0 env w state = (Inl ''Recursion limit reached without hitting a stop condition'', w)"
| "agent_loop (Suc n) env w state =
     (let state1 = state\<lparr>messages := messages state @ [call_model env state]\<rparr>
      in case should_continue state1 of
           Inl e \<Rightarrow> (Inl e, w)
         | Inr nxt \<Rightarrow>
             if nxt = ''tools'' then
               (case call_tools env w state1 of
                  (Inl e, w1) \<Rightarrow> (Inl e, w1)
                | (Inr tool_responses, w1) \<Rightarrow>
                    agent_loop n env w1 (state1\<lparr>messages := messages state1 @ tool_responses\<rparr>))
             else (Inr state1, w))"

text \<open>\<open>self.graph.invoke(initial_state)\<close>: \<open>Inl\<close> is the exception it raises.\<close>

definition run_graph ::
  "environment \<Rightarrow> world \<Rightarrow> UnifiedAgentState \<Rightarrow> (string + UnifiedAgentState) \<times> world" where
  "run_graph env w initial_state =
     (let state = classify_query initial_state
      in if operation_type state = ''nust_info''
         then (case handle_nust_query env w state of (state1, w1) \<Rightarrow> (Inr state1, w1))
         else agent_loop (recursion_limit env) env w state)"

section \<open>Sessions and the chat interface\<close>

text \<open>\<open>str(KeyError(k))\<close> for a missing dictionary key.\<close>

definition key_error :: "string \<Rightarrow> string" where
  "key_error k = [CHR 0x27] @ k @ [CHR 0x27]"

text \<open>Python's truth value of an optional string: \<open>None\<close> and the empty string are false.\<close>

definition truthy :: "string option \<Rightarrow> bool" where
  "truthy s = (case s of None \<Rightarrow> False | Some v \<Rightarrow> v \<noteq> [])"

definition create_session ::
  "environment \<Rightarrow> (string \<rightharpoonup> session) \<Rightarrow> string \<Rightarrow> string option
     \<Rightarrow> string \<times> (string \<rightharpoonup> session)" where
  "create_session env store user_id sid =
     (case (if truthy sid then sid else None) of
        Some given \<Rightarrow>
          if given \<in> dom store then (given, store)
          else (given, store(given \<mapsto>
                  \<lparr>s_session_id = given, s_user_id = user_id, s_created_at = clock env 0,
                   s_last_activity = clock env 0, conversation_history = []\<rparr>))
      | None \<Rightarrow>
          (let fresh = uuid4 env 1
           in if fresh \<in> dom store then (fresh, store)
              else (fresh, store(fresh \<mapsto>
                      \<lparr>s_session_id = fresh, s_user_id = user_id, s_created_at = clock env 0,
                       s_last_activity = clock env 0, conversation_history = []\<rparr>))))"

definition get_session_info :: "(string \<rightharpoonup> session) \<Rightarrow> string \<Rightarrow> session option" where
  "get_session_info store sid = store sid"

definition get_context :: "environment \<Rightarrow> string \<Rightarrow> string" where
  "get_context env message =
     (if \<exists>keyword \<in> set [''nust'', ''national university'', ''sciences technology''].
            str_in keyword (lower message)
      then str_join ''\<newline>'' (map page_content (retrieve_context (json_docs env) message))
      else '''')"

definition build_prompt :: "string \<Rightarrow> string \<Rightarrow> history_entry list \<Rightarrow> string" where
  \<open>build_prompt message context history =
     (let history_text =
            concat (map (\<lambda>msg. (if h_role msg = ''user'' then ''User'' else ''Assistant'')
                                  @ '': '' @ h_content msg @ ''\<newline>'')
                        (drop (length history - 6) history));
          context_text = (if context \<noteq> []
                          then ''\<newline>Relevant Context:\<newline>'' @ context @ ''\<newline>'' else '''')
      in str_strip (full_prompt_template system_prompt context_text history_text message))\<close>

text \<open>The answer read off the final graph state.\<close>

definition response_of :: "UnifiedAgentState \<Rightarrow> string" where
  "response_of result =
     (if final_answer result \<noteq> [] then final_answer result
      else (case find (\<lambda>m. case m of AIMessage c t \<Rightarrow> True | _ \<Rightarrow> False) (rev (messages result)) of
              Some (AIMessage content calls) \<Rightarrow> content
            | _ \<Rightarrow> ''I'' @ [CHR 0x27] @ ''m sorry, I couldn'' @ [CHR 0x27]
                     @ ''t process your request properly.''))"

record chat_response =
  cr_response :: string
  cr_session_id :: string
  cr_timestamp :: timestamp

text \<open>
  The body of \<open>chat\<close> inside its \<open>try\<close>: \<open>Inl\<close> is an exception that reaches the handler,
  together with the session id assigned so far and the world as the exception left it.
\<close>

definition new_session_id :: "environment \<Rightarrow> string option \<Rightarrow> string" where
  "new_session_id env sid = (case (if truthy sid then sid else None) of
                               Some given \<Rightarrow> given | None \<Rightarrow> uuid4 env 0)"

definition ensure_session :: "environment \<Rightarrow> world \<Rightarrow> string \<Rightarrow> world" where
  "ensure_session env w sid =
     (if sid \<notin> dom (sessions w)
      then w\<lparr>sessions := snd (create_session env (sessions w) ''default_user'' (Some sid))\<rparr>
      else w)"

definition initial_state :: "string \<Rightarrow> string \<Rightarrow> string \<Rightarrow> UnifiedAgentState" where
  "initial_state message op sid =
     \<lparr>messages = [HumanMessage message], query = message, operation_type = op,
      final_answer = '''', session_id = sid\<rparr>"

definition chat_body ::
  "environment \<Rightarrow> world \<Rightarrow> string \<Rightarrow> string \<Rightarrow> (string + chat_response) \<times> world" where
  "chat_body env w message sid =
     (let w1 = ensure_session env w sid
      in case sessions w1 sid of
           None \<Rightarrow> (Inl (key_error sid), w1)
         | Some ses \<Rightarrow>
             (let w2 = w1\<lparr>sessions := (sessions w1)(sid \<mapsto> ses\<lparr>s_last_activity := clock env 1\<rparr>)\<rparr>
              in case run_graph env w2 (initial_state message '''' sid) of
                   (Inl e, w3) \<Rightarrow> (Inl e, w3)
                 | (Inr result, w3) \<Rightarrow>
                     (let response_content = response_of result
                      in case sessions w3 sid of
                           None \<Rightarrow> (Inl (key_error sid), w3)
                         | Some ses3 \<Rightarrow>
                             (Inr \<lparr>cr_response = response_content, cr_session_id = sid,
                                   cr_timestamp = clock env 4\<rparr>,
                              w3\<lparr>sessions := (sessions w3)(sid \<mapsto>
                                   ses3\<lparr>conversation_history := conversation_history ses3 @
                                     [\<lparr>h_role = ''user'', h_content = message,
                                       h_timestamp = clock env 2\<rparr>,
                                      \<lparr>h_role = ''assistant'', h_content = response_content,
                                       h_timestamp = clock env 3\<rparr>]\<rparr>)\<rparr>))))"

definition chat ::
  "environment \<Rightarrow> world \<Rightarrow> string \<Rightarrow> string option \<Rightarrow> chat_response \<times> world" where
  "chat env w message session =
     (let sid = new_session_id env session
      in case chat_body env w message sid of
           (Inr r, w1) \<Rightarrow> (r, w1)
         | (Inl e, w1) \<Rightarrow>
             (\<lparr>cr_response = ''I encountered an error while processing your request: '' @ e,
               cr_session_id = (if sid \<noteq> [] then sid else uuid4 env 2),
               cr_timestamp = clock env 4\<rparr>, w1))"

text \<open>The history stored for a session id, empty when there is no such session.\<close>

definition history_of :: "world \<Rightarrow> string \<Rightarrow> history_entry list" where
  "history_of w sid = (case sessions w sid of Some ses \<Rightarrow> conversation_history ses | None \<Rightarrow> [])"

section \<open>The streaming interface\<close>

text \<open>
  One yielded dictionary. The keys \<open>complete\<close>, \<open>error\<close> and \<open>streaming\<close> are not in every
  snapshot: \<open>None\<close> is an absent key. Progress is a float in the source and an exact
  rational here; \<open>(i + 1) / n * 100\<close> keeps its order and is exactly 100 at \<open>i + 1 = n\<close> in
  both.
\<close>

record snapshot =
  sn_response :: string
  sn_session_id :: string
  sn_timestamp :: timestamp
  progress :: rat
  complete :: "bool option"
  error :: "bool option"
  streaming :: "bool option"

text \<open>
  The loops that replay a finished text. \<open>n\<close> is the length of the whole text, \<open>i\<close> the
  index of the next item, \<open>cur\<close> the text emitted so far, \<open>t\<close> the index of the next clock
  reading.
\<close>

fun replay_words ::
  "environment \<Rightarrow> string \<Rightarrow> nat \<Rightarrow> nat \<Rightarrow> nat \<Rightarrow> string \<Rightarrow> string list \<Rightarrow> snapshot list" where
  "replay_words env sid t n i cur [] = []"
| "replay_words env sid t n i cur (word # rest) =
     (let current_text = cur @ word @ (if i < n - 1 then '' '' else '''')
      in \<lparr>sn_response = current_text, sn_session_id = sid, sn_timestamp = clock env t,
          progress = (of_nat (i + 1) / of_nat n) * 100,
          complete = Some (i = n - 1), error = None, streaming = None\<rparr>
         # replay_words env sid (t + 1) n (i + 1) current_text rest)"

fun replay_chars ::
  "environment \<Rightarrow> string \<Rightarrow> nat \<Rightarrow> nat \<Rightarrow> nat \<Rightarrow> string \<Rightarrow> string \<Rightarrow> snapshot list" where
  "replay_chars env sid t n i cur [] = []"
| "replay_chars env sid t n i cur (c # rest) =
     (let current_text = cur @ [c]
      in if c \<in> set '' \<newline>.!?;,'' \<or> i mod 2 = 0 \<or> i = n - 1
         then \<lparr>sn_response = current_text, sn_session_id = sid, sn_timestamp = clock env t,
                progress = (of_nat (i + 1) / of_nat n) * 100,
                complete = Some (i = n - 1), error = None, streaming = None\<rparr>
              # replay_chars env sid (t + 1) n (i + 1) current_text rest
         else replay_chars env sid t n (i + 1) current_text rest)"

text \<open>The error loop, the same in all four handlers: one snapshot for every prefix.\<close>

definition error_stream :: "environment \<Rightarrow> string \<Rightarrow> nat \<Rightarrow> string \<Rightarrow> snapshot list" where
  "error_stream env sid t error_content =
     map (\<lambda>i. \<lparr>sn_response = take (i + 1) error_content, sn_session_id = sid,
                sn_timestamp = clock env (t + i),
                progress = (of_nat (i + 1) / of_nat (length error_content)) * 100,
                complete = Some (i = length error_content - 1), error = Some True,
                streaming = None\<rparr>)
         [0 ..< length error_content]"

text \<open>
  The loop over the chunks of \<open>astream\<close>: the snapshots, the text and the chunk count
  after the last chunk.
\<close>

fun stream_chunks ::
  "environment \<Rightarrow> string \<Rightarrow> nat \<Rightarrow> string \<Rightarrow> nat \<Rightarrow> string list \<Rightarrow> snapshot list \<times> string \<times> nat" where
  "stream_chunks env sid t full_content chunk_count [] = ([], full_content, chunk_count)"
| "stream_chunks env sid t full_content chunk_count (chunk # rest) =
     (if chunk \<noteq> [] then
        (let full_content1 = full_content @ chunk;
             chunk_count1 = chunk_count + 1
         in case stream_chunks env sid (t + 1) full_content1 chunk_count1 rest of
              (snaps, r) \<Rightarrow>
                (\<lparr>sn_response = full_content1, sn_session_id = sid, sn_timestamp = clock env t,
                   progress = of_nat (min 90 (chunk_count1 * 5)),
                   complete = None, error = None, streaming = Some True\<rparr> # snaps, r))
      else stream_chunks env sid t full_content chunk_count rest)"

text \<open>
  The administrative branch: the graph runs to its end, then the answer is replayed word
  by word. The result is the snapshots, \<open>full_content\<close> and the world.
\<close>

definition stream_admin ::
  "environment \<Rightarrow> world \<Rightarrow> string \<Rightarrow> string \<Rightarrow> snapshot list \<times> string \<times> world" where
  "stream_admin env w message sid =
     (case run_graph env w (initial_state message ''campus_admin'' sid) of
        (Inr result, w1) \<Rightarrow>
          (let full_content = response_of result;
               words = str_split full_content
           in (replay_words env sid 5 (length words) 0 '''' words, full_content, w1))
      | (Inl e, w1) \<Rightarrow>
          (let error_content = ''I encountered an error while processing your request: '' @ e
           in (error_stream env sid 5 error_content, error_content, w1)))"

text \<open>
  The general branch. \<open>astream\<close> hands over its chunks and then either ends or raises;
  without \<open>astream\<close> the whole answer is fetched and replayed by character.
\<close>

definition stream_general ::
  "environment \<Rightarrow> world \<Rightarrow> string \<Rightarrow> string \<Rightarrow> history_entry list
     \<Rightarrow> snapshot list \<times> string \<times> world" where
  "stream_general env w message sid history =
     (let context = get_context env message;
          full_prompt = build_prompt message context history;
          msgs = [HumanMessage full_prompt]
      in case llm_astream env of
           Some astream \<Rightarrow>
             (case astream msgs of
                (chunks, raised) \<Rightarrow>
                  (case stream_chunks env sid 5 '''' 0 chunks of
                     (snaps, full_content, chunk_count) \<Rightarrow>
                       (case raised of
                          None \<Rightarrow>
                            (snaps @ [\<lparr>sn_response = full_content, sn_session_id = sid,
                                       sn_timestamp = clock env (5 + length snaps),
                                       progress = 100, complete = Some True, error = None,
                                       streaming = None\<rparr>],
                             full_content, w)
                        | Some llm_error \<Rightarrow>
                            (let full_content1 = ''I apologize, but I encountered an error: '' @ llm_error
                             in (snaps @ error_stream env sid (5 + length snaps) full_content1,
                                 full_content1, w)))))
         | None \<Rightarrow>
             (case llm_ainvoke env msgs of
                Inr content \<Rightarrow>
                  (replay_chars env sid 5 (length content) 0 '''' content, content, w)
              | Inl llm_error \<Rightarrow>
                  (let full_content1 = ''I apologize, but I encountered an error: '' @ llm_error
                   in (error_stream env sid 5 full_content1, full_content1, w))))"

text \<open>The choice between the two branches, by the administrative keywords.\<close>

definition stream_branch ::
  "environment \<Rightarrow> world \<Rightarrow> string \<Rightarrow> string \<Rightarrow> history_entry list
     \<Rightarrow> snapshot list \<times> string \<times> world" where
  "stream_branch env w message sid history =
     (if \<exists>keyword \<in> set admin_keywords. str_in keyword (lower message)
      then stream_admin env w message sid
      else stream_general env w message sid history)"

text \<open>
  \<open>stream_chat\<close>, run until the generator is exhausted: all snapshots in the order they
  are yielded, and the world afterwards. A failed dictionary lookup is the only exception
  the statements outside the two branches can raise; it reaches the outermost handler.
\<close>

definition stream_chat ::
  "environment \<Rightarrow> world \<Rightarrow> string \<Rightarrow> string option \<Rightarrow> snapshot list \<times> world" where
  "stream_chat env w message session =
     (let sid = new_session_id env session;
          outer = (\<lambda>emitted e w'.
                     (emitted @ error_stream env (if sid \<noteq> [] then sid else uuid4 env 2)
                                  (5 + length emitted)
                                  (''I apologize, but I encountered an error: '' @ e), w'));
          w1 = ensure_session env w sid
      in case sessions w1 sid of
           None \<Rightarrow> outer [] (key_error sid) w1
         | Some ses \<Rightarrow>
             (let ses1 = ses\<lparr>s_last_activity := clock env 1\<rparr>;
                  ses2 = ses1\<lparr>conversation_history := conversation_history ses1 @
                           [\<lparr>h_role = ''user'', h_content = message, h_timestamp = clock env 2\<rparr>]\<rparr>;
                  w2 = w1\<lparr>sessions := (sessions w1)(sid \<mapsto> ses2)\<rparr>
              in case stream_branch env w2 message sid (conversation_history ses2) of
                   (snaps, full_content, w3) \<Rightarrow>
                     if full_content \<noteq> [] then
                       (case sessions w3 sid of
                          None \<Rightarrow> outer snaps (key_error sid) w3
                        | Some ses3 \<Rightarrow>
                            (snaps,
                             w3\<lparr>sessions := (sessions w3)(sid \<mapsto>
                                  ses3\<lparr>conversation_history := conversation_history ses3 @
                                    [\<lparr>h_role = ''assistant'', h_content = full_content,
                                      h_timestamp = clock env 3\<rparr>]\<rparr>)\<rparr>))
                     else (snaps, w3)))"

text \<open>
  A stream that ends properly: its last snapshot reports progress 100 and
  \<open>complete = true\<close>, and no earlier snapshot reaches 100 or is marked complete.
\<close>

definition finished :: "snapshot list \<Rightarrow> bool" where
  "finished snaps \<longleftrightarrow>
     snaps \<noteq> [] \<and> progress (last snaps) = 100 \<and> complete (last snaps) = Some True
     \<and> (\<forall>s \<in> set (butlast snaps). progress s < 100 \<and> complete s \<noteq> Some True)"

text \<open>The snapshots of the answer and those of an error message, each in the order emitted.\<close>

definition answer_part :: "snapshot list \<Rightarrow> snapshot list" where
  "answer_part snaps = filter (\<lambda>s. error s \<noteq> Some True) snaps"

definition error_part :: "snapshot list \<Rightarrow> snapshot list" where
  "error_part snaps = filter (\<lambda>s. error s = Some True) snaps"

text \<open>
  What every branch guarantees for its snapshots: a non-empty stream ends properly, the
  answer's progress and the error message's progress never decrease, and a stream with
  an error snapshot ends with one.
\<close>

definition branch_ok :: "snapshot list \<Rightarrow> bool" where
  "branch_ok L \<longleftrightarrow>
     (L \<noteq> [] \<longrightarrow> finished L)
     \<and> sorted (map progress (answer_part L))
     \<and> sorted (map progress (error_part L))
     \<and> ((\<exists>s \<in> set L. error s = Some True) \<longrightarrow> L \<noteq> [] \<and> error (last L) = Some True)"

section \<open>A concrete environment and world\<close>

text \<open>
  A healthy set of collaborators, used to run the definitions on concrete inputs: the
  database and the mail service answer, the search provider finds nothing, the model
  answers \<open>Hello there\<close> in two chunks.
\<close>

definition demo_env :: environment where
  "demo_env =
     \<lparr>db_fault = (\<lambda>m. None),
      db_now = 1000000,
      send_welcome_email = (\<lambda>student_id recipient nm dept eml.
         Inr \<lparr>er_success = True, er_message = ''Email sent successfully''\<rparr>),
      send_update_notification = (\<lambda>student_id recipient nm field old_value new_value.
         Inr \<lparr>er_success = True, er_message = ''Email sent successfully''\<rparr>),
      json_docs = basic_nust_info,
      ddgs = Some (\<lambda>q n. Inr []),
      llm_invoke = (\<lambda>msgs. Inr ''NUST is a university.''),
      llm_with_tools_invoke = (\<lambda>msgs. Inr (''Done.'', [])),
      llm_astream = Some (\<lambda>msgs. ([''Hello '', ''there''], None)),
      llm_ainvoke = (\<lambda>msgs. Inr ''Hello there''),
      recursion_limit = 25,
      clock = (\<lambda>k. 1000000 + int k),
      uuid4 = (\<lambda>k. ''6f1c2e0a-uuid'')\<rparr>"

definition ali :: student where
  "ali = \<lparr>st_id = ''STU001'', st_name = ''Ali Ahmed'', st_department = ''Computer Science'',
          st_email = ''ali.ahmed@nust.edu.pk'', st_created_at = 999000, st_last_active = 999000,
          st_is_active = True\<rparr>"

definition sara :: student where
  "sara = \<lparr>st_id = ''STU002'', st_name = ''Sara Khan'', st_department = ''Mathematics'',
           st_email = ''sara.khan@nust.edu.pk'', st_created_at = 100, st_last_active = 100,
           st_is_active = True\<rparr>"

definition demo_world :: world where
  "demo_world =
     \<lparr>sessions = Map.empty,
      db = \<lparr>students = [ali, sara],
            activity_logs = [\<lparr>al_student_id = ''STU001'', al_activity = ''Student registered'',
                              al_timestamp = 999000\<rparr>]\<rparr>,
      email_calls = [],
      search_calls = []\<rparr>"

section \<open>Facts about the string operations\<close>

lemma lower_append: "lower (xs @ ys) = lower xs @ lower ys"
  by (simp add: lower_def)

lemma str_in_iff: "str_in sub s \<longleftrightarrow> (\<exists>pre post. s = pre @ sub @ post)"
proof (induction s)
  case Nil
  then show ?case by auto
next
  case (Cons c cs)
  show ?case
  proof
    assume "str_in sub (c # cs)"
    then consider "prefix sub (c # cs)" | "str_in sub cs" by auto
    then show "\<exists>pre post. c # cs = pre @ sub @ post"
    proof cases
      case 1
      then obtain post where "c # cs = sub @ post" by (auto simp: prefix_def)
      then have "c # cs = [] @ sub @ post" by simp
      then show ?thesis by blast
    next
      case 2
      with Cons.IH obtain pre post where "cs = pre @ sub @ post" by blast
      then have "c # cs = (c # pre) @ sub @ post" by simp
      then show ?thesis by blast
    qed
  next
    assume "\<exists>pre post. c # cs = pre @ sub @ post"
    then obtain pre post where eq: "c # cs = pre @ sub @ post" by blast
    show "str_in sub (c # cs)"
    proof (cases pre)
      case Nil
      with eq have "prefix sub (c # cs)" by (simp add: prefix_def)
      then show ?thesis by simp
    next
      case (Cons p ps)
      with eq have "cs = ps @ sub @ post" by simp
      with Cons.IH have "str_in sub cs" by blast
      then show ?thesis by simp
    qed
  qed
qed

lemma str_in_lower_occurrence:
  "lower occ = kw \<Longrightarrow> str_in kw (lower (pre @ occ @ post))"
  unfolding str_in_iff lower_append by blast

lemma str_in_Nil [simp]: "str_in [] s"
  by (induction s) auto






section \<open>Intent classification\<close>

text \<open>
  C7. The classifier is a total function of the utterance that only writes the
  operation type. An utterance holding an information-query keyword, in any casing and
  at any position, is classified \<open>nust_info\<close>; one holding an administrative keyword and
  no information-query keyword is classified \<open>campus_admin\<close>; one holding neither is
  classified \<open>general\<close>.
\<close>

theorem classify_query_intent:
  "(kw \<in> set nust_keywords \<and> lower occ = kw \<longrightarrow>
      classify_query (st\<lparr>query := pre @ occ @ post\<rparr>)
        = st\<lparr>query := pre @ occ @ post, operation_type := ''nust_info''\<rparr>)
   \<and> ((\<exists>k \<in> set nust_keywords. str_in k (lower (query st))) \<longrightarrow>
      classify_query st = st\<lparr>operation_type := ''nust_info''\<rparr>)
   \<and> ((\<exists>k \<in> set admin_keywords. str_in k (lower (query st))) \<and>
      \<not> (\<exists>k \<in> set nust_keywords. str_in k (lower (query st))) \<longrightarrow>
      classify_query st = st\<lparr>operation_type := ''campus_admin''\<rparr>)
   \<and> (\<not> (\<exists>k \<in> set admin_keywords. str_in k (lower (query st))) \<and>
      \<not> (\<exists>k \<in> set nust_keywords. str_in k (lower (query st))) \<longrightarrow>
      classify_query st = st\<lparr>operation_type := ''general''\<rparr>)"
proof (intro conjI impI)
  assume h: "kw \<in> set nust_keywords \<and> lower occ = kw"
  then have "str_in kw (lower (pre @ occ @ post))"
    using str_in_lower_occurrence by blast
  with h have "\<exists>k \<in> set nust_keywords. str_in k (lower (pre @ occ @ post))" by blast
  then show "classify_query (st\<lparr>query := pre @ occ @ post\<rparr>)
        = st\<lparr>query := pre @ occ @ post, operation_type := ''nust_info''\<rparr>"
    by (simp add: classify_query_def)
qed (simp_all add: classify_query_def)

theorem classify_query_intent_witness:
  "classify_query \<lparr>messages = [], query = ''Tell me about NuSt fees'', operation_type = '''',
       final_answer = '''', session_id = ''s1''\<rparr>
     = \<lparr>messages = [], query = ''Tell me about NuSt fees'', operation_type = ''nust_info'',
       final_answer = '''', session_id = ''s1''\<rparr>
   \<and> classify_query \<lparr>messages = [], query = ''Please ADD student Ali'', operation_type = '''',
       final_answer = '''', session_id = ''s1''\<rparr>
     = \<lparr>messages = [], query = ''Please ADD student Ali'', operation_type = ''campus_admin'',
       final_answer = '''', session_id = ''s1''\<rparr>
   \<and> classify_query \<lparr>messages = [], query = ''hello'', operation_type = '''',
       final_answer = '''', session_id = ''s1''\<rparr>
     = \<lparr>messages = [], query = ''hello'', operation_type = ''general'',
       final_answer = '''', session_id = ''s1''\<rparr>"
proof -
  let ?st = "\<lambda>q. \<lparr>messages = [], query = q, operation_type = '''',
       final_answer = '''', session_id = ''s1''\<rparr>"
  have a: "''nust'' \<in> set nust_keywords \<and> lower ''NuSt'' = ''nust''"
    by (simp add: nust_keywords_def lower_def lower_char_def)
  have b: "(\<exists>k \<in> set admin_keywords. str_in k (lower (query (?st ''Please ADD student Ali''))))
      \<and> \<not> (\<exists>k \<in> set nust_keywords. str_in k (lower (query (?st ''Please ADD student Ali''))))"
    by (simp add: admin_keywords_def nust_keywords_def lower_def lower_char_def)
  have c: "\<not> (\<exists>k \<in> set admin_keywords. str_in k (lower (query (?st ''hello''))))
      \<and> \<not> (\<exists>k \<in> set nust_keywords. str_in k (lower (query (?st ''hello''))))"
    by (simp add: admin_keywords_def nust_keywords_def lower_def lower_char_def)
  from a b c
    classify_query_intent [where kw = "''nust''" and occ = "''NuSt''" and st = "?st ''x''"
      and pre = "''Tell me about ''" and post = "'' fees''"]
    classify_query_intent [where st = "?st ''Please ADD student Ali''"]
    classify_query_intent [where st = "?st ''hello''"]
  show ?thesis by simp
qed

section \<open>Knowledge retrieval\<close>












section \<open>Web search\<close>

lemma str_in_lower_iff:
  "str_in k (lower q) \<longleftrightarrow> (\<exists>pre occ post. q = pre @ occ @ post \<and> lower occ = k)"
proof
  assume "str_in k (lower q)"
  then obtain a b where "map lower_char q = a @ k @ b"
    unfolding str_in_iff lower_def by blast
  then obtain pre r where q: "q = pre @ r" and r: "map lower_char r = k @ b"
    by (metis map_eq_append_conv)
  from r obtain occ post where "r = occ @ post" and "map lower_char occ = k"
    by (metis map_eq_append_conv)
  with q have "q = pre @ occ @ post \<and> lower occ = k" by (simp add: lower_def)
  then show "\<exists>pre occ post. q = pre @ occ @ post \<and> lower occ = k" by blast
next
  assume "\<exists>pre occ post. q = pre @ occ @ post \<and> lower occ = k"
  then show "str_in k (lower q)" using str_in_lower_occurrence by blast
qed

text \<open>
  C3 (amended). When the provider is available, \<open>search\<close> sends it exactly one query:
  the original query with \<open>NUST University Pakistan\<close> put in front when the query already
  mentions \<open>nust\<close> in some casing, and the unmodified query when it does not. Without a
  provider nothing is sent.
\<close>

theorem search_query_rewrite:
  "(ddgs env = None \<longrightarrow> search_calls (snd (search env w q n)) = search_calls w)
   \<and> (ddgs env = Some provider \<longrightarrow>
        ((\<exists>pre occ post. q = pre @ occ @ post \<and> lower occ = ''nust'') \<longrightarrow>
           search_calls (snd (search env w q n))
             = search_calls w @ [(''NUST University Pakistan '' @ q, n)])
      \<and> (\<not> (\<exists>pre occ post. q = pre @ occ @ post \<and> lower occ = ''nust'') \<longrightarrow>
           search_calls (snd (search env w q n)) = search_calls w @ [(q, n)]))"
proof (intro conjI impI)
  assume "ddgs env = None"
  then show "search_calls (snd (search env w q n)) = search_calls w"
    by (simp add: search_def)
next
  assume p: "ddgs env = Some provider"
    and "\<exists>pre occ post. q = pre @ occ @ post \<and> lower occ = ''nust''"
  then have "str_in ''nust'' (lower q)" using str_in_lower_iff by blast
  with p show "search_calls (snd (search env w q n))
             = search_calls w @ [(''NUST University Pakistan '' @ q, n)]"
    by (simp add: search_def Let_def split: sum.split)
next
  assume p: "ddgs env = Some provider"
    and "\<not> (\<exists>pre occ post. q = pre @ occ @ post \<and> lower occ = ''nust'')"
  then have "\<not> str_in ''nust'' (lower q)" using str_in_lower_iff by blast
  with p show "search_calls (snd (search env w q n)) = search_calls w @ [(q, n)]"
    by (simp add: search_def Let_def split: sum.split)
qed

theorem search_query_rewrite_witness:
  "search_calls (snd (search demo_env demo_world ''What is NuSt?'' 3))
     = [(''NUST University Pakistan What is NuSt?'', 3)]
   \<and> search_calls (snd (search demo_env demo_world ''admission dates'' 3))
     = [(''admission dates'', 3)]
   \<and> search_calls (snd (search (demo_env\<lparr>ddgs := None\<rparr>) demo_world ''admission dates'' 3)) = []"
proof -
  have a: "ddgs demo_env = Some (\<lambda>q n. Inr [])" by (simp add: demo_env_def)
  have b: "\<exists>pre occ post. ''What is NuSt?'' = pre @ occ @ post \<and> lower occ = ''nust''"
  proof (intro exI conjI)
    show "''What is NuSt?'' = ''What is '' @ ''NuSt'' @ ''?''" by simp
    show "lower ''NuSt'' = ''nust''" by (simp add: lower_def lower_char_def)
  qed
  have c: "\<not> (\<exists>pre occ post. ''admission dates'' = pre @ occ @ post \<and> lower occ = ''nust'')"
    unfolding str_in_lower_iff [symmetric] by (simp add: lower_def lower_char_def)
  have d: "ddgs (demo_env\<lparr>ddgs := None\<rparr>) = None" by simp
  have e: "search_calls demo_world = []" by (simp add: demo_world_def)
  from a b e search_query_rewrite [where env = demo_env and provider = "\<lambda>q n. Inr []"
      and q = "''What is NuSt?''" and w = demo_world and n = 3]
  have 1: "search_calls (snd (search demo_env demo_world ''What is NuSt?'' 3))
     = [(''NUST University Pakistan What is NuSt?'', 3)]" by simp
  from a c e search_query_rewrite [where env = demo_env and provider = "\<lambda>q n. Inr []"
      and q = "''admission dates''" and w = demo_world and n = 3]
  have 2: "search_calls (snd (search demo_env demo_world ''admission dates'' 3))
     = [(''admission dates'', 3)]" by simp
  from d e search_query_rewrite [where env = "demo_env\<lparr>ddgs := None\<rparr>" and w = demo_world
      and q = "''admission dates''" and n = 3]
  have 3: "search_calls (snd (search (demo_env\<lparr>ddgs := None\<rparr>) demo_world ''admission dates'' 3)) = []"
    by simp
  from 1 2 3 show ?thesis by simp
qed

text \<open>
  The claim as first stated has the condition the other way round: a query that does not
  mention the institution is sent unchanged, and one that does mention it is prefixed.
\<close>

theorem search_prefix_counterexample:
  "\<not> str_in ''nust'' (lower ''admission dates'')
   \<and> search_calls (snd (search demo_env demo_world ''admission dates'' 3))
       = [(''admission dates'', 3)]
   \<and> str_in ''nust'' (lower ''NUST fees'')
   \<and> search_calls (snd (search demo_env demo_world ''NUST fees'' 3))
       = [(''NUST University Pakistan NUST fees'', 3)]"
  by (simp add: search_def demo_env_def demo_world_def lower_def lower_char_def)

section \<open>Sessions\<close>

text \<open>
  C10. In a session store without an empty key (every store the agent builds, since an
  empty id is replaced by a UUID before it is stored), \<open>create_session\<close> on an id that is
  present returns that id and the store unchanged, whoever the user and whatever the
  time. For any non-empty id, present or not, a second call with the same id returns
  the id and leaves the store as the first call left it.
\<close>

theorem create_session_idempotent:
  "('''' \<notin> dom store \<and> sid \<in> dom store \<longrightarrow>
      create_session env store uid (Some sid) = (sid, store))
   \<and> (sid \<noteq> '''' \<longrightarrow>
        fst (create_session env store uid (Some sid)) = sid
      \<and> create_session env' (snd (create_session env store uid (Some sid))) uid' (Some sid)
          = (sid, snd (create_session env store uid (Some sid))))
   \<and> ('''' \<notin> dom store \<and> uuid4 env 1 \<noteq> '''' \<longrightarrow>
        '''' \<notin> dom (snd (create_session env store uid session)))"
proof (intro conjI impI)
  assume "'''' \<notin> dom store \<and> sid \<in> dom store"
  then have "sid \<noteq> ''''" and "sid \<in> dom store" by auto
  then show "create_session env store uid (Some sid) = (sid, store)"
    by (simp add: create_session_def truthy_def)
next
  assume "sid \<noteq> ''''"
  then show "fst (create_session env store uid (Some sid)) = sid"
    by (simp add: create_session_def truthy_def)
next
  assume "sid \<noteq> ''''"
  then show "create_session env' (snd (create_session env store uid (Some sid))) uid' (Some sid)
          = (sid, snd (create_session env store uid (Some sid)))"
    by (simp add: create_session_def truthy_def)
next
  assume "'''' \<notin> dom store \<and> uuid4 env 1 \<noteq> ''''"
  then show "'''' \<notin> dom (snd (create_session env store uid session))"
    by (cases session) (auto simp: create_session_def truthy_def Let_def)
qed

theorem create_session_idempotent_witness:
  "create_session demo_env
      [''s1'' \<mapsto> \<lparr>s_session_id = ''s1'', s_user_id = ''u1'', s_created_at = 5,
                  s_last_activity = 7, conversation_history = []\<rparr>] ''u2'' (Some ''s1'')
     = (''s1'', [''s1'' \<mapsto> \<lparr>s_session_id = ''s1'', s_user_id = ''u1'', s_created_at = 5,
                  s_last_activity = 7, conversation_history = []\<rparr>])
   \<and> fst (create_session demo_env Map.empty ''u1'' (Some ''s2'')) = ''s2''
   \<and> create_session (demo_env\<lparr>clock := (\<lambda>k. 9)\<rparr>)
        (snd (create_session demo_env Map.empty ''u1'' (Some ''s2''))) ''u1'' (Some ''s2'')
     = (''s2'', snd (create_session demo_env Map.empty ''u1'' (Some ''s2'')))
   \<and> '''' \<notin> dom (snd (create_session demo_env Map.empty ''u1'' None))"
proof -
  let ?ses = "\<lparr>s_session_id = ''s1'', s_user_id = ''u1'', s_created_at = 5,
                  s_last_activity = 7, conversation_history = []\<rparr>"
  have a: "'''' \<notin> dom [''s1'' \<mapsto> ?ses] \<and> ''s1'' \<in> dom [''s1'' \<mapsto> ?ses]" by simp
  have b: "''s2'' \<noteq> ''''" by simp
  have c: "'''' \<notin> dom (Map.empty :: string \<rightharpoonup> session) \<and> uuid4 demo_env 1 \<noteq> ''''"
    by (simp add: demo_env_def)
  from a create_session_idempotent [where store = "[''s1'' \<mapsto> ?ses]" and sid = "''s1''"
      and env = demo_env and uid = "''u2''"]
  have 1: "create_session demo_env [''s1'' \<mapsto> ?ses] ''u2'' (Some ''s1'')
     = (''s1'', [''s1'' \<mapsto> ?ses])" by blast
  from b create_session_idempotent [where store = Map.empty and sid = "''s2''"
      and env = demo_env and uid = "''u1''" and env' = "demo_env\<lparr>clock := (\<lambda>k. 9)\<rparr>"
      and uid' = "''u1''"]
  have 2: "fst (create_session demo_env Map.empty ''u1'' (Some ''s2'')) = ''s2''
   \<and> create_session (demo_env\<lparr>clock := (\<lambda>k. 9)\<rparr>)
        (snd (create_session demo_env Map.empty ''u1'' (Some ''s2''))) ''u1'' (Some ''s2'')
     = (''s2'', snd (create_session demo_env Map.empty ''u1'' (Some ''s2'')))" by blast
  from c create_session_idempotent [where store = Map.empty and env = demo_env
      and uid = "''u1''" and session = None]
  have 3: "'''' \<notin> dom (snd (create_session demo_env Map.empty ''u1'' None))" by blast
  from 1 2 3 show ?thesis by blast
qed

section \<open>The student tools and the notification service\<close>

text \<open>
  C4 (amended). For every student id and whatever the database and the mail service do,
  \<open>delete_student_tool\<close> makes no notification call. Its result never reports
  \<open>email_sent\<close> as true: a successful deletion reports \<open>email_sent: false\<close>, and every
  other result (unknown id, failed deletion, database error) has no \<open>email_sent\<close> key.
\<close>

theorem delete_student_tool_no_notification:
  "email_calls (snd (delete_student_tool env w student_id)) = email_calls w
   \<and> json_get (fst (delete_student_tool env w student_id)) ''email_sent'' \<noteq> Some (JBool True)
   \<and> (json_get (fst (delete_student_tool env w student_id)) ''success'' = Some (JBool True)
        \<longrightarrow> json_get (fst (delete_student_tool env w student_id)) ''email_sent''
              = Some (JBool False))
   \<and> (json_get (fst (delete_student_tool env w student_id)) ''success'' \<noteq> Some (JBool True)
        \<longrightarrow> json_get (fst (delete_student_tool env w student_id)) ''email_sent'' = None)
   \<and> (json_get (fst (delete_student_tool env w student_id)) ''success'' = Some (JBool True)
        \<longleftrightarrow> (\<exists>s. get_student env (db w) student_id = Inr (Some s))
              \<and> db_fault env ''delete_student'' = None)"
  by (auto simp: delete_student_tool_def delete_student_def json_get_def
           split: sum.split option.split prod.split)

theorem delete_student_tool_no_notification_witness:
  "json_get (fst (delete_student_tool demo_env demo_world ''STU001'')) ''success'' = Some (JBool True)
   \<and> json_get (fst (delete_student_tool demo_env demo_world ''STU001'')) ''email_sent''
       = Some (JBool False)
   \<and> email_calls (snd (delete_student_tool demo_env demo_world ''STU001'')) = []
   \<and> json_get (fst (delete_student_tool demo_env demo_world ''GHOST'')) ''success''
       = Some (JBool False)
   \<and> json_get (fst (delete_student_tool demo_env demo_world ''GHOST'')) ''email_sent'' = None
   \<and> email_calls (snd (delete_student_tool demo_env demo_world ''GHOST'')) = []"
proof -
  have a: "json_get (fst (delete_student_tool demo_env demo_world ''STU001'')) ''success''
      = Some (JBool True)"
    by (simp add: delete_student_tool_def delete_student_def get_student_def json_get_def
          demo_env_def demo_world_def ali_def sara_def)
  have b: "json_get (fst (delete_student_tool demo_env demo_world ''GHOST'')) ''success''
      = Some (JBool False)"
    by (simp add: delete_student_tool_def delete_student_def get_student_def json_get_def
          demo_env_def demo_world_def ali_def sara_def)
  have c: "email_calls demo_world = []" by (simp add: demo_world_def)
  from a c delete_student_tool_no_notification [of demo_env demo_world "''STU001''"]
  have 1: "json_get (fst (delete_student_tool demo_env demo_world ''STU001'')) ''email_sent''
       = Some (JBool False)
     \<and> email_calls (snd (delete_student_tool demo_env demo_world ''STU001'')) = []" by simp
  from b c delete_student_tool_no_notification [of demo_env demo_world "''GHOST''"]
  have 2: "json_get (fst (delete_student_tool demo_env demo_world ''GHOST'')) ''email_sent'' = None
     \<and> email_calls (snd (delete_student_tool demo_env demo_world ''GHOST'')) = []" by simp
  from a b 1 2 show ?thesis by simp
qed

text \<open>
  The claim as first stated fails for an id that is not in the registry: the result is
  the not-found dictionary, which has no \<open>email_sent\<close> key at all.
\<close>

theorem delete_student_tool_email_sent_counterexample:
  "fst (delete_student_tool demo_env demo_world ''GHOST'')
     = JObj [(''success'', JBool False), (''message'', JStr ''Student with ID GHOST not found'')]
   \<and> json_get (fst (delete_student_tool demo_env demo_world ''GHOST'')) ''email_sent''
       \<noteq> Some (JBool False)"
  by (simp add: delete_student_tool_def get_student_def json_get_def
        demo_env_def demo_world_def ali_def sara_def)

text \<open>
  C5. When the insert of \<open>add_student_tool\<close> succeeds, or the student is found and the
  update of \<open>update_student_info\<close> succeeds, the tool makes exactly one notification call
  and reports \<open>success: true\<close>, whatever that call does: the mail service is arbitrary
  here, it may raise or return a failure.
\<close>

theorem notification_best_effort:
  "(snd (add_student env (db w) student_id nm dept eml) \<longrightarrow>
      email_calls (snd (add_student_tool env w nm student_id dept eml))
        = email_calls w @ [WelcomeEmail student_id eml nm dept eml]
    \<and> json_get (fst (add_student_tool env w nm student_id dept eml)) ''success''
        = Some (JBool True))
   \<and> (get_student env (db w) student_id = Inr (Some s)
      \<and> snd (update_student env (db w) student_id field new_value) \<longrightarrow>
      email_calls (snd (update_student_info env w student_id field new_value))
        = email_calls w @ [UpdateNotification student_id (st_email s) (st_name s) field
                             (if field = ''name'' then st_name s
                              else if field = ''department'' then st_department s
                              else st_email s) new_value]
    \<and> json_get (fst (update_student_info env w student_id field new_value)) ''success''
        = Some (JBool True))"
proof (intro conjI impI)
  assume "snd (add_student env (db w) student_id nm dept eml)"
  then show "email_calls (snd (add_student_tool env w nm student_id dept eml))
        = email_calls w @ [WelcomeEmail student_id eml nm dept eml]"
    and "json_get (fst (add_student_tool env w nm student_id dept eml)) ''success''
        = Some (JBool True)"
    by (auto simp: add_student_tool_def json_get_def Let_def split: sum.split prod.split)
next
  assume h: "get_student env (db w) student_id = Inr (Some s)
      \<and> snd (update_student env (db w) student_id field new_value)"
  then have g: "get_student env (db w) student_id = Inr (Some s)" by simp
  from h obtain d where u: "update_student env (db w) student_id field new_value = (d, True)"
    by (cases "update_student env (db w) student_id field new_value") simp
  have f: "field = ''name'' \<or> field = ''department'' \<or> field = ''email''"
  proof (rule ccontr)
    assume "\<not> ?thesis"
    then have "update_student env (db w) student_id field new_value = (db w, False)"
      by (simp add: update_student_def)
    with u show False by simp
  qed
  define ov where "ov = str_value (case map_of (student_row s) field of
                              Some v \<Rightarrow> v | None \<Rightarrow> TextVal ''N/A'')"
  have old: "ov = (if field = ''name'' then st_name s
         else if field = ''department'' then st_department s else st_email s)"
    using f by (auto simp: ov_def student_row_def str_value_def)
  let ?w1 = "w\<lparr>db := d, email_calls := email_calls w @
               [UpdateNotification student_id (st_email s) (st_name s) field ov new_value]\<rparr>"
  have r: "update_student_info env w student_id field new_value
      = (case send_update_notification env student_id (st_email s) (st_name s)
                field ov new_value of
           Inr email_result \<Rightarrow>
             (JObj [(''success'', JBool True),
                    (''message'', JStr (''Student '' @ student_id @ '' '' @ field
                        @ '' updated to '' @ [CHR 0x27] @ new_value @ [CHR 0x27])),
                    (''email_sent'', JBool (er_success email_result))], ?w1)
         | Inl e \<Rightarrow>
             (JObj [(''success'', JBool True),
                    (''message'', JStr (''Student updated but notification failed: '' @ e))],
              ?w1))"
    unfolding update_student_info_def g u ov_def by (simp add: Let_def)
  have "email_calls (snd (update_student_info env w student_id field new_value))
        = email_calls w @ [UpdateNotification student_id (st_email s) (st_name s) field
                             ov new_value]"
    unfolding r by (cases "send_update_notification env student_id (st_email s) (st_name s)
                field ov new_value") simp_all
  then show "email_calls (snd (update_student_info env w student_id field new_value))
        = email_calls w @ [UpdateNotification student_id (st_email s) (st_name s) field
                             (if field = ''name'' then st_name s
                              else if field = ''department'' then st_department s
                              else st_email s) new_value]"
    by (simp only: old)
  show "json_get (fst (update_student_info env w student_id field new_value)) ''success''
        = Some (JBool True)"
    unfolding r by (cases "send_update_notification env student_id (st_email s) (st_name s)
                field ov new_value") (simp_all add: json_get_def)
qed

theorem notification_best_effort_witness:
  "fst (add_student_tool
          (demo_env\<lparr>send_welcome_email := (\<lambda>a b c d e. Inl ''SMTP connection refused'')\<rparr>)
          demo_world ''Hassan Ali'' ''STU003'' ''Engineering'' ''hassan.ali@nust.edu.pk'')
     = JObj [(''success'', JBool True),
             (''message'', JStr ''Student Hassan Ali added but email failed: SMTP connection refused'')]
   \<and> email_calls (snd (add_student_tool
          (demo_env\<lparr>send_welcome_email := (\<lambda>a b c d e. Inl ''SMTP connection refused'')\<rparr>)
          demo_world ''Hassan Ali'' ''STU003'' ''Engineering'' ''hassan.ali@nust.edu.pk''))
     = [WelcomeEmail ''STU003'' ''hassan.ali@nust.edu.pk'' ''Hassan Ali'' ''Engineering''
          ''hassan.ali@nust.edu.pk'']
   \<and> json_get (fst (update_student_info
          (demo_env\<lparr>send_update_notification := (\<lambda>a b c d e f.
             Inr \<lparr>er_success = False, er_message = ''Failed to send email: timeout''\<rparr>)\<rparr>)
          demo_world ''STU001'' ''department'' ''Physics'')) ''success'' = Some (JBool True)
   \<and> json_get (fst (update_student_info
          (demo_env\<lparr>send_update_notification := (\<lambda>a b c d e f.
             Inr \<lparr>er_success = False, er_message = ''Failed to send email: timeout''\<rparr>)\<rparr>)
          demo_world ''STU001'' ''department'' ''Physics'')) ''email_sent'' = Some (JBool False)
   \<and> email_calls (snd (update_student_info
          (demo_env\<lparr>send_update_notification := (\<lambda>a b c d e f.
             Inr \<lparr>er_success = False, er_message = ''Failed to send email: timeout''\<rparr>)\<rparr>)
          demo_world ''STU001'' ''department'' ''Physics''))
     = [UpdateNotification ''STU001'' ''ali.ahmed@nust.edu.pk'' ''Ali Ahmed'' ''department''
          ''Computer Science'' ''Physics'']"
proof -
  let ?e1 = "demo_env\<lparr>send_welcome_email := (\<lambda>a b c d e. Inl ''SMTP connection refused'')\<rparr>"
  let ?e2 = "demo_env\<lparr>send_update_notification := (\<lambda>a b c d e f.
             Inr \<lparr>er_success = False, er_message = ''Failed to send email: timeout''\<rparr>)\<rparr>"
  have a: "snd (add_student ?e1 (db demo_world) ''STU003'' ''Hassan Ali'' ''Engineering''
                  ''hassan.ali@nust.edu.pk'')"
    by (simp add: add_student_def demo_env_def demo_world_def ali_def sara_def)
  have b: "get_student ?e2 (db demo_world) ''STU001'' = Inr (Some ali)
      \<and> snd (update_student ?e2 (db demo_world) ''STU001'' ''department'' ''Physics'')"
    by (simp add: get_student_def update_student_def demo_env_def demo_world_def ali_def sara_def)
  have c: "email_calls demo_world = []" by (simp add: demo_world_def)
  have m: "fst (add_student_tool ?e1 demo_world ''Hassan Ali'' ''STU003'' ''Engineering''
                  ''hassan.ali@nust.edu.pk'')
     = JObj [(''success'', JBool True),
             (''message'', JStr ''Student Hassan Ali added but email failed: SMTP connection refused'')]"
    by (simp add: add_student_tool_def add_student_def demo_env_def demo_world_def ali_def sara_def)
  have n: "json_get (fst (update_student_info ?e2 demo_world ''STU001'' ''department'' ''Physics''))
             ''email_sent'' = Some (JBool False)"
    by (simp add: update_student_info_def update_student_def get_student_def json_get_def
          demo_env_def demo_world_def ali_def sara_def)
  from a c notification_best_effort [where env = ?e1 and w = demo_world
      and student_id = "''STU003''" and nm = "''Hassan Ali''" and dept = "''Engineering''"
      and eml = "''hassan.ali@nust.edu.pk''"]
  have 1: "email_calls (snd (add_student_tool ?e1 demo_world ''Hassan Ali'' ''STU003''
                  ''Engineering'' ''hassan.ali@nust.edu.pk''))
     = [WelcomeEmail ''STU003'' ''hassan.ali@nust.edu.pk'' ''Hassan Ali'' ''Engineering''
          ''hassan.ali@nust.edu.pk'']" by simp
  from b c notification_best_effort [where env = ?e2 and w = demo_world
      and student_id = "''STU001''" and s = ali and field = "''department''"
      and new_value = "''Physics''"]
  have 2: "json_get (fst (update_student_info ?e2 demo_world ''STU001'' ''department'' ''Physics''))
             ''success'' = Some (JBool True)
     \<and> email_calls (snd (update_student_info ?e2 demo_world ''STU001'' ''department'' ''Physics''))
     = [UpdateNotification ''STU001'' ''ali.ahmed@nust.edu.pk'' ''Ali Ahmed'' ''department''
          ''Computer Science'' ''Physics'']" by (simp add: ali_def)
  from m n 1 2 show ?thesis by simp
qed

section \<open>Campus analytics\<close>








section \<open>The graph leaves the session store alone\<close>

lemma sessions_add_student_tool [simp]:
  "sessions (snd (add_student_tool env w nm student_id dept eml)) = sessions w"
  by (simp add: add_student_tool_def Let_def split: prod.split sum.split)

lemma sessions_get_student_info [simp]:
  "sessions (snd (get_student_info env w student_id)) = sessions w"
  by (simp add: get_student_info_def split: sum.split option.split)

lemma sessions_update_student_info [simp]:
  "sessions (snd (update_student_info env w student_id field new_value)) = sessions w"
  by (simp add: update_student_info_def Let_def split: prod.split sum.split option.split)

lemma sessions_delete_student_tool [simp]:
  "sessions (snd (delete_student_tool env w student_id)) = sessions w"
  by (simp add: delete_student_tool_def split: prod.split sum.split option.split)

lemma sessions_list_all_students [simp]:
  "sessions (snd (list_all_students env w)) = sessions w"
  by (simp add: list_all_students_def split: sum.split)

lemma sessions_get_campus_analytics_tool [simp]:
  "sessions (snd (get_campus_analytics_tool env w)) = sessions w"
  by (simp add: get_campus_analytics_tool_def split: sum.split)

lemma snd_case_prod_Some: "snd (case p of (r, w1) \<Rightarrow> (f r, w1)) = snd p"
  by (cases p) simp

lemma sessions_invoke_tool [simp]:
  "sessions (snd (invoke_tool env w tool_name args)) = sessions w"
  unfolding invoke_tool_def
  by (simp add: snd_case_prod_Some split: sum.split)

lemma sessions_run_tool_calls [simp]:
  "sessions (snd (run_tool_calls env w calls)) = sessions w"
proof (induction calls arbitrary: w)
  case Nil
  then show ?case by simp
next
  case (Cons c calls)
  obtain r w1 where i: "invoke_tool env w (tc_name c) (tc_args c) = (r, w1)"
    by (cases "invoke_tool env w (tc_name c) (tc_args c)")
  then have "sessions w1 = sessions w"
    using sessions_invoke_tool [of env w "tc_name c" "tc_args c"] by simp
  moreover have "sessions (snd (run_tool_calls env w1 calls)) = sessions w1"
    by (rule Cons.IH)
  ultimately have t: "sessions (snd (run_tool_calls env w1 calls)) = sessions w" by simp
  obtain ms w2 where rc: "run_tool_calls env w1 calls = (ms, w2)"
    by (cases "run_tool_calls env w1 calls")
  with t have "sessions w2 = sessions w" by simp
  then show ?case
    by (simp add: i rc split: option.split sum.split)
qed

lemma sessions_call_tools [simp]:
  "sessions (snd (call_tools env w state)) = sessions w"
proof -
  have "sessions (snd (case run_tool_calls env w calls of
                         (tool_responses, w1) \<Rightarrow> (Inr tool_responses :: string + message list, w1)))
      = sessions w" for calls
    using sessions_run_tool_calls [of env w calls]
    by (cases "run_tool_calls env w calls") simp
  then show ?thesis
    by (simp add: call_tools_def split: sum.split message.split)
qed

lemma sessions_agent_loop [simp]:
  "sessions (snd (agent_loop n env w state)) = sessions w"
proof (induction n arbitrary: w state)
  case 0
  then show ?case by simp
next
  case (Suc n)
  let ?s1 = "state\<lparr>messages := messages state @ [call_model env state]\<rparr>"
  obtain r w1 where c: "call_tools env w ?s1 = (r, w1)" by (cases "call_tools env w ?s1")
  then have w1: "sessions w1 = sessions w"
    using sessions_call_tools [of env w ?s1] by simp
  show ?case
    by (simp add: Let_def c w1 Suc.IH split: sum.split)
qed

lemma sessions_search [simp]: "sessions (snd (search env w q n)) = sessions w"
  by (simp add: search_def Let_def split: option.split sum.split)

lemma sessions_handle_nust_query [simp]:
  "sessions (snd (handle_nust_query env w state)) = sessions w"
proof -
  obtain r w1 where s: "search env w (query state) 3 = (r, w1)"
    by (cases "search env w (query state) 3")
  then have "sessions w1 = sessions w" using sessions_search [of env w "query state" 3] by simp
  then show ?thesis
    by (simp add: handle_nust_query_def Let_def s split: sum.split)
qed

lemma sessions_run_graph [simp]:
  "sessions (snd (run_graph env w state)) = sessions w"
proof -
  have "sessions (snd (case handle_nust_query env w st of
            (state1, w1) \<Rightarrow> (Inr state1 :: string + UnifiedAgentState, w1))) = sessions w" for st
    using sessions_handle_nust_query [of env w st]
    by (cases "handle_nust_query env w st") simp
  then show ?thesis by (simp add: run_graph_def Let_def)
qed

section \<open>The chat interface\<close>














section \<open>Progress of a replayed text\<close>

lemma scale_le: "(x::rat) \<le> 1 \<Longrightarrow> x * 100 \<le> 100"
  by simp

lemma scale_less: "(x::rat) < 1 \<Longrightarrow> x * 100 < 100"
  by simp

lemma scale_mono: "(x::rat) \<le> y \<Longrightarrow> x * 100 \<le> y * 100"
  by simp

lemma grade_le: "i + 1 \<le> n \<Longrightarrow> (of_nat (i + 1) / of_nat n) * 100 \<le> (100::rat)"
proof (rule scale_le)
  assume a: "i + 1 \<le> n"
  then have "(of_nat (i + 1) :: rat) \<le> of_nat n" by (simp only: of_nat_le_iff)
  moreover from a have "(0::rat) < of_nat n" by simp
  ultimately show "(of_nat (i + 1) :: rat) / of_nat n \<le> 1" by (simp only: divide_le_eq_1_pos)
qed

lemma grade_less: "i + 1 < n \<Longrightarrow> (of_nat (i + 1) / of_nat n) * 100 < (100::rat)"
proof (rule scale_less)
  assume a: "i + 1 < n"
  then have "(of_nat (i + 1) :: rat) < of_nat n" by (simp only: of_nat_less_iff)
  moreover from a have "(0::rat) < of_nat n" by simp
  ultimately show "(of_nat (i + 1) :: rat) / of_nat n < 1" by (simp only: divide_less_eq_1_pos)
qed

lemma grade_full: "0 < n \<Longrightarrow> (of_nat (n - 1 + 1) / of_nat n) * 100 = (100::rat)"
  by simp

lemma grade_mono:
  "i \<le> j \<Longrightarrow> (of_nat (i + 1) / of_nat n) * 100 \<le> ((of_nat (j + 1) / of_nat n) * 100 :: rat)"
proof (rule scale_mono)
  assume "i \<le> j"
  then have "(of_nat (i + 1) :: rat) \<le> of_nat (j + 1)" by simp
  then show "(of_nat (i + 1) :: rat) / of_nat n \<le> of_nat (j + 1) / of_nat n"
    by (rule divide_right_mono) simp
qed

lemma finished_single: "progress x = 100 \<Longrightarrow> complete x = Some True \<Longrightarrow> finished [x]"
  by (simp add: finished_def)

lemma finished_Cons:
  "finished L \<Longrightarrow> progress x < 100 \<Longrightarrow> complete x \<noteq> Some True \<Longrightarrow> finished (x # L)"
  by (auto simp: finished_def)

lemma finished_append:
  "finished B \<Longrightarrow> \<forall>s \<in> set A. progress s < 100 \<and> complete s \<noteq> Some True \<Longrightarrow> finished (A @ B)"
  by (induction A) (auto simp: finished_Cons)

text \<open>The word replay, started at index \<open>i\<close> with \<open>rest\<close> still to come.\<close>

lemma replay_words_props:
  "i + length rest = n \<Longrightarrow>
     (rest \<noteq> [] \<longrightarrow> finished (replay_words env sid t n i cur rest))
   \<and> (rest = [] \<longrightarrow> replay_words env sid t n i cur rest = [])
   \<and> sorted (map progress (replay_words env sid t n i cur rest))
   \<and> (\<forall>s \<in> set (replay_words env sid t n i cur rest).
         (of_nat (i + 1) / of_nat n) * 100 \<le> progress s \<and> error s = None)"
proof (induction rest arbitrary: i cur t)
  case Nil
  then show ?case by simp
next
  case (Cons word rest)
  let ?cur = "cur @ word @ (if i < n - 1 then '' '' else '''')"
  let ?x = "\<lparr>sn_response = ?cur, sn_session_id = sid, sn_timestamp = clock env t,
            progress = (of_nat (i + 1) / of_nat n) * 100,
            complete = Some (i = n - 1), error = None, streaming = None\<rparr>"
  let ?L = "replay_words env sid (t + 1) n (i + 1) ?cur rest"
  have L: "replay_words env sid t n i cur (word # rest) = ?x # ?L" by (simp add: Let_def)
  from Cons.prems have n: "(i + 1) + length rest = n" by simp
  note IH = Cons.IH [OF n, of "t + 1" ?cur]
  have lb: "\<forall>s \<in> set ?L. (of_nat (i + 1) / of_nat n) * 100 \<le> progress s"
  proof
    fix s assume "s \<in> set ?L"
    with IH have "(of_nat (i + 1 + 1) / of_nat n) * 100 \<le> progress s" by blast
    moreover have "(of_nat (i + 1) / of_nat n) * 100 \<le> ((of_nat (i + 1 + 1) / of_nat n) * 100 :: rat)"
      by (rule grade_mono) simp
    ultimately show "(of_nat (i + 1) / of_nat n) * 100 \<le> progress s" by (rule order_trans [rotated])
  qed
  have fin: "finished (?x # ?L)"
  proof (cases "rest = []")
    case True
    with n have i: "i = n - 1" and "0 < n" by auto
    then have "progress ?x = 100" using grade_full [of n] by simp
    moreover from i have "complete ?x = Some True" by simp
    moreover from True IH have "?L = []" by blast
    ultimately show ?thesis using finished_single [of ?x] by simp
  next
    case False
    with n have i: "i + 1 < n" by (cases rest) auto
    then have "progress ?x < 100" using grade_less [of i n] by simp
    moreover from i have "complete ?x \<noteq> Some True" by simp
    moreover from False IH have "finished ?L" by blast
    ultimately show ?thesis by (rule finished_Cons [rotated 1])
  qed
  have srt: "sorted (map progress (?x # ?L))"
    using IH lb by simp
  have all: "\<forall>s \<in> set (?x # ?L). (of_nat (i + 1) / of_nat n) * 100 \<le> progress s \<and> error s = None"
    using IH lb by simp
  from fin srt all show ?case unfolding L by blast
qed


text \<open>The character replay: the same, with some indices left out.\<close>

lemma replay_chars_props:
  "i + length rest = n \<Longrightarrow>
     (rest \<noteq> [] \<longrightarrow> finished (replay_chars env sid t n i cur rest))
   \<and> (rest = [] \<longrightarrow> replay_chars env sid t n i cur rest = [])
   \<and> sorted (map progress (replay_chars env sid t n i cur rest))
   \<and> (\<forall>s \<in> set (replay_chars env sid t n i cur rest).
         (of_nat (i + 1) / of_nat n) * 100 \<le> progress s \<and> error s = None)"
proof (induction rest arbitrary: i cur t)
  case Nil
  then show ?case by simp
next
  case (Cons c rest)
  let ?cur = "cur @ [c]"
  let ?x = "\<lparr>sn_response = ?cur, sn_session_id = sid, sn_timestamp = clock env t,
            progress = (of_nat (i + 1) / of_nat n) * 100,
            complete = Some (i = n - 1), error = None, streaming = None\<rparr>"
  let ?keep = "c \<in> set '' \<newline>.!?;,'' \<or> i mod 2 = 0 \<or> i = n - 1"
  from Cons.prems have n: "(i + 1) + length rest = n" by simp
  have lb: "(of_nat (i + 1) / of_nat n) * 100 \<le> progress s"
    if "(of_nat (i + 1 + 1) / of_nat n) * 100 \<le> progress s" for s
  proof -
    have "(of_nat (i + 1) / of_nat n) * 100 \<le> ((of_nat (i + 1 + 1) / of_nat n) * 100 :: rat)"
      by (rule grade_mono) simp
    with that show ?thesis by (rule order_trans [rotated])
  qed
  show ?case
  proof (cases ?keep)
    case True
    let ?L = "replay_chars env sid (t + 1) n (i + 1) ?cur rest"
    from True have L: "replay_chars env sid t n i cur (c # rest) = ?x # ?L"
      by (simp add: Let_def)
    note IH = Cons.IH [OF n, of "t + 1" ?cur]
    have lbs: "\<forall>s \<in> set ?L. (of_nat (i + 1) / of_nat n) * 100 \<le> progress s"
      using IH lb by blast
    have fin: "finished (?x # ?L)"
    proof (cases "rest = []")
      case True
      with n have i: "i = n - 1" and "0 < n" by auto
      then have "progress ?x = 100" using grade_full [of n] by simp
      moreover from i have "complete ?x = Some True" by simp
      moreover from True IH have "?L = []" by blast
      ultimately show ?thesis using finished_single [of ?x] by simp
    next
      case False
      with n have i: "i + 1 < n" by (cases rest) auto
      then have "progress ?x < 100" using grade_less [of i n] by simp
      moreover from i have "complete ?x \<noteq> Some True" by simp
      moreover from False IH have "finished ?L" by blast
      ultimately show ?thesis by (rule finished_Cons [rotated 1])
    qed
    have srt: "sorted (map progress (?x # ?L))" using IH lbs by simp
    have all: "\<forall>s \<in> set (?x # ?L). (of_nat (i + 1) / of_nat n) * 100 \<le> progress s \<and> error s = None"
      using IH lbs by simp
    from fin srt all show ?thesis unfolding L by blast
  next
    case False
    let ?L = "replay_chars env sid t n (i + 1) ?cur rest"
    from False have L: "replay_chars env sid t n i cur (c # rest) = ?L"
      by (simp add: Let_def)
    note IH = Cons.IH [OF n, of t ?cur]
    from False have "i \<noteq> n - 1" by simp
    with n have ne: "rest \<noteq> []" by (cases rest) auto
    with IH have fin: "finished ?L" by blast
    have all: "\<forall>s \<in> set ?L. (of_nat (i + 1) / of_nat n) * 100 \<le> progress s \<and> error s = None"
      using IH lb by blast
    from fin all IH show ?thesis unfolding L by blast
  qed
qed

text \<open>The error replay.\<close>

lemma error_stream_props:
  assumes "msg \<noteq> []"
  shows "finished (error_stream env sid t msg)"
    and "sorted (map progress (error_stream env sid t msg))"
    and "\<forall>s \<in> set (error_stream env sid t msg). error s = Some True"
    and "error_stream env sid t msg \<noteq> []"
proof -
  let ?n = "length msg"
  let ?f = "\<lambda>i. \<lparr>sn_response = take (i + 1) msg, sn_session_id = sid,
                sn_timestamp = clock env (t + i),
                progress = (of_nat (i + 1) / of_nat ?n) * 100,
                complete = Some (i = ?n - 1), error = Some True, streaming = None\<rparr>"
  from assms have n: "0 < ?n" by simp
  have e: "error_stream env sid t msg = map ?f [0 ..< ?n]" by (simp add: error_stream_def)
  from n show ne: "error_stream env sid t msg \<noteq> []" by (simp add: e)
  show "\<forall>s \<in> set (error_stream env sid t msg). error s = Some True"
    by (auto simp: e)
  from n have ne0: "[0 ..< ?n] \<noteq> []" by simp
  from n have lu: "last [0 ..< ?n] = ?n - 1" by simp
  have l: "last (map ?f [0 ..< ?n]) = ?f (?n - 1)"
    by (simp only: last_map [OF ne0] lu)
  have bu: "butlast [0 ..< ?n] = [0 ..< ?n - 1]"
  proof -
    from n obtain m where m: "?n = Suc m" by (cases ?n) auto
    show ?thesis unfolding m by simp
  qed
  have b: "butlast (map ?f [0 ..< ?n]) = map ?f [0 ..< ?n - 1]"
    by (simp only: map_butlast [symmetric] bu)
  have "progress (?f (?n - 1)) = (of_nat (?n - 1 + 1) / of_nat ?n) * 100"
    by (simp only: snapshot.select_convs)
  also have "\<dots> = 100" using n by (rule grade_full)
  finally have "progress (?f (?n - 1)) = 100" .
  moreover have "complete (?f (?n - 1)) = Some True" by simp
  moreover have "\<forall>s \<in> set (map ?f [0 ..< ?n - 1]). progress s < 100 \<and> complete s \<noteq> Some True"
  proof
    fix s assume "s \<in> set (map ?f [0 ..< ?n - 1])"
    then obtain i where i: "i < ?n - 1" and s: "s = ?f i" by auto
    from i have "i + 1 < ?n" by simp
    then have "(of_nat (i + 1) / of_nat ?n) * 100 < (100::rat)" by (rule grade_less)
    with s i show "progress s < 100 \<and> complete s \<noteq> Some True" by simp
  qed
  ultimately show "finished (error_stream env sid t msg)"
    using ne unfolding finished_def e l b by blast
  have "map progress (map ?f [0 ..< ?n]) = map (\<lambda>i. (of_nat (i + 1) / of_nat ?n) * 100) [0 ..< ?n]"
    by simp
  moreover have "sorted (map (\<lambda>i. (of_nat (i + 1) / of_nat ?n) * 100 :: rat) [0 ..< ?n])"
  proof -
    have "sorted_wrt (\<lambda>x y. x \<le> y) [0 ..< ?n]" by simp
    then have "sorted_wrt (\<lambda>i j. (of_nat (i + 1) / of_nat ?n) * 100
                    \<le> ((of_nat (j + 1) / of_nat ?n) * 100 :: rat)) [0 ..< ?n]"
      by (rule sorted_wrt_mono_rel [rotated]) (rule grade_mono)
    then show ?thesis by (simp only: sorted_map)
  qed
  ultimately show "sorted (map progress (error_stream env sid t msg))"
    unfolding e by (simp only:)
qed

text \<open>The chunks of a native stream.\<close>

lemma stream_chunks_props:
  "sorted (map progress (fst (stream_chunks env sid t fc cc chunks)))
   \<and> (\<forall>s \<in> set (fst (stream_chunks env sid t fc cc chunks)).
         of_nat (min 90 ((cc + 1) * 5)) \<le> progress s \<and> progress s < 100
         \<and> complete s = None \<and> error s = None)"
proof (induction chunks arbitrary: t fc cc)
  case Nil
  then show ?case by simp
next
  case (Cons chunk chunks)
  show ?case
  proof (cases "chunk = []")
    case True
    with Cons.IH [of t fc cc] show ?thesis by simp
  next
    case False
    let ?r = "stream_chunks env sid (t + 1) (fc @ chunk) (cc + 1) chunks"
    let ?x = "\<lparr>sn_response = fc @ chunk, sn_session_id = sid, sn_timestamp = clock env t,
              progress = of_nat (min 90 ((cc + 1) * 5)),
              complete = None, error = None, streaming = Some True\<rparr>"
    from False have e: "fst (stream_chunks env sid t fc cc (chunk # chunks)) = ?x # fst ?r"
      by (simp add: Let_def split: prod.split)
    note IH = Cons.IH [of "t + 1" "fc @ chunk" "cc + 1"]
    have "min 90 ((cc + 1) * 5) \<le> min 90 ((cc + 1 + 1) * 5)" by simp
    then have m: "(of_nat (min 90 ((cc + 1) * 5)) :: rat) \<le> of_nat (min 90 ((cc + 1 + 1) * 5))"
      by (simp only: of_nat_le_iff)
    have lb: "\<forall>s \<in> set (fst ?r). of_nat (min 90 ((cc + 1) * 5)) \<le> progress s"
    proof
      fix s assume "s \<in> set (fst ?r)"
      with IH have "of_nat (min 90 ((cc + 1 + 1) * 5)) \<le> progress s" by blast
      with m show "of_nat (min 90 ((cc + 1) * 5)) \<le> progress s" by (rule order_trans)
    qed
    have "min 90 ((cc + 1) * 5) \<le> 90" by simp
    then have "(of_nat (min 90 ((cc + 1) * 5)) :: rat) \<le> of_nat 90"
      by (simp only: of_nat_le_iff)
    then have "(of_nat (min 90 ((cc + 1) * 5)) :: rat) < 100" by simp
    then have x100: "progress ?x < 100" by (simp only: snapshot.select_convs)
    from IH lb x100 show ?thesis unfolding e by simp
  qed
qed

section \<open>The two branches of the streaming interface\<close>

lemma parts_no_error:
  "\<forall>s \<in> set L. error s = None \<Longrightarrow> answer_part L = L \<and> error_part L = []"
  by (induction L) (auto simp: answer_part_def error_part_def)

lemma parts_all_error:
  "\<forall>s \<in> set L. error s = Some True \<Longrightarrow> answer_part L = [] \<and> error_part L = L"
  by (induction L) (auto simp: answer_part_def error_part_def)

lemma parts_append:
  "answer_part (A @ B) = answer_part A @ answer_part B"
  "error_part (A @ B) = error_part A @ error_part B"
  by (simp_all add: answer_part_def error_part_def)

lemma branch_ok_error_stream:
  assumes "msg \<noteq> []"
  shows "branch_ok (error_stream env sid t msg)"
proof -
  note p = error_stream_props [OF assms, of env sid t]
  from p(3) have parts: "answer_part (error_stream env sid t msg) = []"
      "error_part (error_stream env sid t msg) = error_stream env sid t msg"
    using parts_all_error by blast+
  from p(3) p(4) have "error (last (error_stream env sid t msg)) = Some True" by simp
  with p show ?thesis unfolding branch_ok_def parts by simp
qed

lemma branch_ok_no_error:
  assumes "L \<noteq> [] \<longrightarrow> finished L" and "sorted (map progress L)"
    and "\<forall>s \<in> set L. error s = None"
  shows "branch_ok L"
proof -
  from assms(3) have parts: "answer_part L = L" "error_part L = []"
    using parts_no_error by blast+
  from assms(3) have "\<not> (\<exists>s \<in> set L. error s = Some True)" by auto
  with assms show ?thesis unfolding branch_ok_def parts by simp
qed

lemma branch_ok_chunks_then_error:
  assumes "sorted (map progress A)"
    and "\<forall>s \<in> set A. progress s < 100 \<and> complete s = None \<and> error s = None"
    and "msg \<noteq> []"
  shows "branch_ok (A @ error_stream env sid t msg)"
    and "finished (A @ error_stream env sid t msg)"
    and "error (last (A @ error_stream env sid t msg)) = Some True"
proof -
  note p = error_stream_props [OF assms(3), of env sid t]
  from assms(2) have a: "answer_part A = A" "error_part A = []"
    using parts_no_error by blast+
  from p(3) have e: "answer_part (error_stream env sid t msg) = []"
      "error_part (error_stream env sid t msg) = error_stream env sid t msg"
    using parts_all_error by blast+
  from assms(2) have "\<forall>s \<in> set A. progress s < 100 \<and> complete s \<noteq> Some True" by simp
  with p(1) show fin: "finished (A @ error_stream env sid t msg)" by (rule finished_append)
  from p(3) p(4) show l: "error (last (A @ error_stream env sid t msg)) = Some True" by simp
  from fin l assms(1) p(2) p(4) show "branch_ok (A @ error_stream env sid t msg)"
    unfolding branch_ok_def parts_append a e by simp
qed

lemma branch_ok_chunks_then_final:
  assumes "sorted (map progress A)"
    and "\<forall>s \<in> set A. progress s < 100 \<and> complete s = None \<and> error s = None"
    and "progress x = 100" and "complete x = Some True" and "error x = None"
  shows "branch_ok (A @ [x])"
proof (rule branch_ok_no_error)
  from assms(2) have "\<forall>s \<in> set A. progress s < 100 \<and> complete s \<noteq> Some True" by simp
  moreover from assms(3,4) have "finished [x]" by (rule finished_single)
  ultimately have "finished (A @ [x])" by (rule finished_append [rotated])
  then show "A @ [x] \<noteq> [] \<longrightarrow> finished (A @ [x])" by simp
  from assms(1,2,3) show "sorted (map progress (A @ [x]))"
    by (auto simp: sorted_append intro: less_imp_le)
  from assms(2,5) show "\<forall>s \<in> set (A @ [x]). error s = None" by simp
qed

lemma error_text_nonempty:
  "''I encountered an error while processing your request: '' @ e \<noteq> []"
  "''I apologize, but I encountered an error: '' @ e \<noteq> []"
  by simp_all

lemma stream_admin_ok: "branch_ok (fst (stream_admin env w message sid))"
proof (cases "run_graph env w (initial_state message ''campus_admin'' sid)")
  case (Pair r w1)
  show ?thesis
  proof (cases r)
    case (Inl e)
    with Pair have "fst (stream_admin env w message sid)
        = error_stream env sid 5 (''I encountered an error while processing your request: '' @ e)"
      by (simp add: stream_admin_def Let_def)
    then show ?thesis using branch_ok_error_stream [OF error_text_nonempty(1)] by simp
  next
    case (Inr result)
    let ?words = "str_split (response_of result)"
    from Inr Pair have e: "fst (stream_admin env w message sid)
        = replay_words env sid 5 (length ?words) 0 '''' ?words"
      by (simp add: stream_admin_def Let_def)
    have "0 + length ?words = length ?words" by simp
    note p = replay_words_props [OF this, of env sid 5 "''''"]
    have "replay_words env sid 5 (length ?words) 0 '''' ?words \<noteq> [] \<longrightarrow>
            finished (replay_words env sid 5 (length ?words) 0 '''' ?words)"
      using p by blast
    moreover have "sorted (map progress (replay_words env sid 5 (length ?words) 0 '''' ?words))"
      using p by blast
    moreover have "\<forall>s \<in> set (replay_words env sid 5 (length ?words) 0 '''' ?words). error s = None"
      using p by blast
    ultimately show ?thesis unfolding e by (rule branch_ok_no_error)
  qed
qed

lemma stream_admin_raised:
  assumes "run_graph env w (initial_state message ''campus_admin'' sid) = (Inl e, w1)"
  shows "finished (fst (stream_admin env w message sid))"
    and "\<forall>s \<in> set (fst (stream_admin env w message sid)). error s = Some True"
proof -
  from assms have e: "fst (stream_admin env w message sid)
        = error_stream env sid 5 (''I encountered an error while processing your request: '' @ e)"
    by (simp add: stream_admin_def Let_def)
  note p = error_stream_props [OF error_text_nonempty(1), of env sid 5 e]
  from p(1) show "finished (fst (stream_admin env w message sid))" unfolding e .
  from p(3) show "\<forall>s \<in> set (fst (stream_admin env w message sid)). error s = Some True"
    unfolding e .
qed

lemma sessions_stream_admin:
  "sessions (snd (snd (stream_admin env w message sid))) = sessions w"
proof (cases "run_graph env w (initial_state message ''campus_admin'' sid)")
  case (Pair r w1)
  with sessions_run_graph [of env w "initial_state message ''campus_admin'' sid"]
  have "sessions w1 = sessions w" by simp
  with Pair show ?thesis by (cases r) (simp_all add: stream_admin_def Let_def)
qed

lemma stream_general_cases:
  obtains (native_done) astream chunks where
      "llm_astream env = Some astream"
      "astream [HumanMessage (build_prompt message (get_context env message) history)] = (chunks, None)"
      "stream_general env w message sid history =
         (fst (stream_chunks env sid 5 '''' 0 chunks) @
            [\<lparr>sn_response = fst (snd (stream_chunks env sid 5 '''' 0 chunks)), sn_session_id = sid,
              sn_timestamp = clock env (5 + length (fst (stream_chunks env sid 5 '''' 0 chunks))),
              progress = 100, complete = Some True, error = None, streaming = None\<rparr>],
          fst (snd (stream_chunks env sid 5 '''' 0 chunks)), w)"
    | (native_raised) astream chunks e where
      "llm_astream env = Some astream"
      "astream [HumanMessage (build_prompt message (get_context env message) history)] = (chunks, Some e)"
      "stream_general env w message sid history =
         (fst (stream_chunks env sid 5 '''' 0 chunks) @
            error_stream env sid (5 + length (fst (stream_chunks env sid 5 '''' 0 chunks)))
              (''I apologize, but I encountered an error: '' @ e),
          ''I apologize, but I encountered an error: '' @ e, w)"
    | (fallback_done) content where
      "llm_astream env = None"
      "llm_ainvoke env [HumanMessage (build_prompt message (get_context env message) history)] = Inr content"
      "stream_general env w message sid history =
         (replay_chars env sid 5 (length content) 0 '''' content, content, w)"
    | (fallback_raised) e where
      "llm_astream env = None"
      "llm_ainvoke env [HumanMessage (build_prompt message (get_context env message) history)] = Inl e"
      "stream_general env w message sid history =
         (error_stream env sid 5 (''I apologize, but I encountered an error: '' @ e),
          ''I apologize, but I encountered an error: '' @ e, w)"
proof (cases "llm_astream env")
  case None
  let ?msgs = "[HumanMessage (build_prompt message (get_context env message) history)]"
  show thesis
  proof (cases "llm_ainvoke env ?msgs")
    case (Inl e)
    with None have "stream_general env w message sid history =
         (error_stream env sid 5 (''I apologize, but I encountered an error: '' @ e),
          ''I apologize, but I encountered an error: '' @ e, w)"
      by (simp add: stream_general_def Let_def)
    with None Inl show thesis by (rule fallback_raised)
  next
    case (Inr content)
    with None have "stream_general env w message sid history =
         (replay_chars env sid 5 (length content) 0 '''' content, content, w)"
      by (simp add: stream_general_def Let_def)
    with None Inr show thesis by (rule fallback_done)
  qed
next
  case (Some astream)
  let ?msgs = "[HumanMessage (build_prompt message (get_context env message) history)]"
  obtain chunks raised where a: "astream ?msgs = (chunks, raised)" by (cases "astream ?msgs")
  obtain snaps fc cc where c: "stream_chunks env sid 5 '''' 0 chunks = (snaps, fc, cc)"
    by (cases "stream_chunks env sid 5 '''' 0 chunks") auto
  show thesis
  proof (cases raised)
    case None
    with Some a c have "stream_general env w message sid history =
         (fst (stream_chunks env sid 5 '''' 0 chunks) @
            [\<lparr>sn_response = fst (snd (stream_chunks env sid 5 '''' 0 chunks)), sn_session_id = sid,
              sn_timestamp = clock env (5 + length (fst (stream_chunks env sid 5 '''' 0 chunks))),
              progress = 100, complete = Some True, error = None, streaming = None\<rparr>],
          fst (snd (stream_chunks env sid 5 '''' 0 chunks)), w)"
      by (simp add: stream_general_def Let_def)
    with Some a None show thesis using native_done by blast
  next
    case (Some e)
    with \<open>llm_astream env = Some astream\<close> a c
    have "stream_general env w message sid history =
         (fst (stream_chunks env sid 5 '''' 0 chunks) @
            error_stream env sid (5 + length (fst (stream_chunks env sid 5 '''' 0 chunks)))
              (''I apologize, but I encountered an error: '' @ e),
          ''I apologize, but I encountered an error: '' @ e, w)"
      by (simp add: stream_general_def Let_def)
    with \<open>llm_astream env = Some astream\<close> a Some show thesis using native_raised by blast
  qed
qed

lemma chunks_before_100:
  "\<forall>s \<in> set (fst (stream_chunks env sid t fc cc chunks)).
      progress s < 100 \<and> complete s = None \<and> error s = None"
  using stream_chunks_props [of env sid t fc cc chunks] by blast

lemma chunks_sorted: "sorted (map progress (fst (stream_chunks env sid t fc cc chunks)))"
  using stream_chunks_props [of env sid t fc cc chunks] by blast

lemma stream_general_ok: "branch_ok (fst (stream_general env w message sid history))"
proof (cases rule: stream_general_cases [of env message history w sid])
  case (native_done astream chunks)
  show ?thesis unfolding native_done(3) fst_conv
    by (rule branch_ok_chunks_then_final [OF chunks_sorted chunks_before_100]) simp_all
next
  case (native_raised astream chunks e)
  show ?thesis unfolding native_raised(3) fst_conv
    by (rule branch_ok_chunks_then_error(1) [OF chunks_sorted chunks_before_100 error_text_nonempty(2)])
next
  case (fallback_done content)
  have "0 + length content = length content" by simp
  note p = replay_chars_props [OF this, of env sid 5 "''''"]
  have "replay_chars env sid 5 (length content) 0 '''' content \<noteq> [] \<longrightarrow>
          finished (replay_chars env sid 5 (length content) 0 '''' content)"
    using p by blast
  moreover have "sorted (map progress (replay_chars env sid 5 (length content) 0 '''' content))"
    using p by blast
  moreover have "\<forall>s \<in> set (replay_chars env sid 5 (length content) 0 '''' content). error s = None"
    using p by blast
  ultimately show ?thesis unfolding fallback_done(3) fst_conv by (rule branch_ok_no_error)
next
  case (fallback_raised e)
  show ?thesis unfolding fallback_raised(3) fst_conv
    by (rule branch_ok_error_stream [OF error_text_nonempty(2)])
qed

lemma stream_general_raised:
  assumes "llm_astream env = Some astream
           \<and> snd (astream [HumanMessage (build_prompt message (get_context env message) history)])
               = Some e
         \<or> llm_astream env = None
           \<and> llm_ainvoke env [HumanMessage (build_prompt message (get_context env message) history)]
               = Inl e"
  shows "finished (fst (stream_general env w message sid history))"
    and "error (last (fst (stream_general env w message sid history))) = Some True"
proof -
  have "finished (fst (stream_general env w message sid history))
      \<and> error (last (fst (stream_general env w message sid history))) = Some True"
  proof (cases rule: stream_general_cases [of env message history w sid])
    case (native_done astream' chunks)
    with assms show ?thesis by auto
  next
    case (native_raised astream' chunks e')
    show ?thesis unfolding native_raised(3) fst_conv
      using branch_ok_chunks_then_error(2,3) [OF chunks_sorted chunks_before_100 error_text_nonempty(2)]
      by blast
  next
    case (fallback_done content)
    with assms show ?thesis by auto
  next
    case (fallback_raised e')
    note p = error_stream_props [OF error_text_nonempty(2), of env sid 5 e']
    from p(3) p(4) have "error (last (error_stream env sid 5
        (''I apologize, but I encountered an error: '' @ e'))) = Some True" by simp
    with p(1) show ?thesis unfolding fallback_raised(3) fst_conv by blast
  qed
  then show "finished (fst (stream_general env w message sid history))"
    and "error (last (fst (stream_general env w message sid history))) = Some True" by blast+
qed

lemma snd_stream_general: "snd (snd (stream_general env w message sid history)) = w"
  by (cases rule: stream_general_cases [of env message history w sid]) simp_all

section \<open>The streamed turn as a whole\<close>

lemma stream_branch_result:
  assumes "stream_branch env w message sid history = (snaps, full_content, w3)"
  shows "branch_ok snaps" and "sessions w3 = sessions w"
proof -
  have "branch_ok (fst (stream_branch env w message sid history))"
    by (simp add: stream_branch_def stream_admin_ok stream_general_ok)
  with assms show "branch_ok snaps" by simp
  have "sessions (snd (snd (stream_branch env w message sid history))) = sessions w"
    by (simp add: stream_branch_def sessions_stream_admin snd_stream_general)
  with assms show "sessions w3 = sessions w" by simp
qed

lemma key_error_text_nonempty: "''I apologize, but I encountered an error: '' @ key_error k \<noteq> []"
  by simp

lemma stream_chat_ran:
  fixes env w message session ses
  defines "sid \<equiv> new_session_id env session"
  defines "w1 \<equiv> ensure_session env w sid"
  defines "ses2 \<equiv> (ses\<lparr>s_last_activity := clock env 1\<rparr>)
       \<lparr>conversation_history := conversation_history (ses\<lparr>s_last_activity := clock env 1\<rparr>) @
          [\<lparr>h_role = ''user'', h_content = message, h_timestamp = clock env 2\<rparr>]\<rparr>"
  defines "w2 \<equiv> w1\<lparr>sessions := (sessions w1)(sid \<mapsto> ses2)\<rparr>"
  assumes present: "sessions w1 sid = Some ses"
  obtains snaps fc w3 where
    "stream_branch env w2 message sid (conversation_history ses2) = (snaps, fc, w3)"
    "branch_ok snaps"
    "sessions w3 = (sessions w1)(sid \<mapsto> ses2)"
    "stream_chat env w message session =
       (snaps,
        if fc \<noteq> [] then
          w3\<lparr>sessions := (sessions w3)(sid \<mapsto>
               ses2\<lparr>conversation_history := conversation_history ses2 @
                 [\<lparr>h_role = ''assistant'', h_content = fc, h_timestamp = clock env 3\<rparr>]\<rparr>)\<rparr>
        else w3)"
proof -
  obtain snaps fc w3 where b: "stream_branch env w2 message sid (conversation_history ses2)
      = (snaps, fc, w3)"
    by (cases "stream_branch env w2 message sid (conversation_history ses2)") auto
  note r = stream_branch_result [OF b]
  from r(2) have s3: "sessions w3 = (sessions w1)(sid \<mapsto> ses2)" by (simp add: w2_def)
  then have l3: "sessions w3 sid = Some ses2" by simp
  have "stream_chat env w message session =
      (case stream_branch env w2 message sid (conversation_history ses2) of
         (snaps, full_content, w3) \<Rightarrow>
           if full_content \<noteq> [] then
             (case sessions w3 sid of
                None \<Rightarrow>
                  (snaps @ error_stream env (if sid \<noteq> [] then sid else uuid4 env 2)
                             (5 + length snaps)
                             (''I apologize, but I encountered an error: '' @ key_error sid), w3)
              | Some ses3 \<Rightarrow>
                  (snaps,
                   w3\<lparr>sessions := (sessions w3)(sid \<mapsto>
                        ses3\<lparr>conversation_history := conversation_history ses3 @
                          [\<lparr>h_role = ''assistant'', h_content = full_content,
                            h_timestamp = clock env 3\<rparr>]\<rparr>)\<rparr>))
           else (snaps, w3))"
    using present
    unfolding stream_chat_def Let_def w2_def ses2_def w1_def sid_def
    by (simp only: option.case)
  then have "stream_chat env w message session =
       (snaps,
        if fc \<noteq> [] then
          w3\<lparr>sessions := (sessions w3)(sid \<mapsto>
               ses2\<lparr>conversation_history := conversation_history ses2 @
                 [\<lparr>h_role = ''assistant'', h_content = fc, h_timestamp = clock env 3\<rparr>]\<rparr>)\<rparr>
        else w3)"
    unfolding b by (simp add: l3)
  with b r(1) s3 show thesis by (rule that)
qed

lemma stream_chat_missing:
  assumes "sessions (ensure_session env w (new_session_id env session)) (new_session_id env session)
             = None"
  shows "stream_chat env w message session =
           (error_stream env (if new_session_id env session \<noteq> [] then new_session_id env session
                              else uuid4 env 2) 5
              (''I apologize, but I encountered an error: '' @ key_error (new_session_id env session)),
            ensure_session env w (new_session_id env session))"
  using assms by (simp add: stream_chat_def Let_def)

lemma stream_chat_ok: "branch_ok (fst (stream_chat env w message session))"
proof (cases "sessions (ensure_session env w (new_session_id env session))
                (new_session_id env session)")
  case None
  show ?thesis unfolding stream_chat_missing [OF None] fst_conv
    by (rule branch_ok_error_stream [OF key_error_text_nonempty])
next
  case (Some ses)
  then show ?thesis
  proof (rule stream_chat_ran)
    fix snaps fc w3
    assume "branch_ok snaps" and "stream_chat env w message session =
       (snaps,
        if fc \<noteq> [] then
          w3\<lparr>sessions := (sessions w3)(new_session_id env session \<mapsto>
               (ses\<lparr>s_last_activity := clock env 1\<rparr>)
                 \<lparr>conversation_history :=
                    conversation_history (ses\<lparr>s_last_activity := clock env 1\<rparr>) @
                      [\<lparr>h_role = ''user'', h_content = message, h_timestamp = clock env 2\<rparr>]\<rparr>
               \<lparr>conversation_history := conversation_history
                   ((ses\<lparr>s_last_activity := clock env 1\<rparr>)
                 \<lparr>conversation_history :=
                    conversation_history (ses\<lparr>s_last_activity := clock env 1\<rparr>) @
                      [\<lparr>h_role = ''user'', h_content = message, h_timestamp = clock env 2\<rparr>]\<rparr>) @
                 [\<lparr>h_role = ''assistant'', h_content = fc, h_timestamp = clock env 3\<rparr>]\<rparr>)\<rparr>
        else w3)"
    then show ?thesis by simp
  qed
qed

lemma stream_chat_link:
  assumes "sessions (ensure_session env w (new_session_id env session)) (new_session_id env session)
             \<noteq> None"
  shows "\<exists>w2 history. fst (stream_chat env w message session)
           = fst (stream_branch env w2 message (new_session_id env session) history)"
proof -
  from assms obtain ses where
    "sessions (ensure_session env w (new_session_id env session)) (new_session_id env session)
       = Some ses" by auto
  then show ?thesis
  proof (rule stream_chat_ran)
    fix snaps fc w3
    let ?ses2 = "(ses\<lparr>s_last_activity := clock env 1\<rparr>)
                 \<lparr>conversation_history :=
                    conversation_history (ses\<lparr>s_last_activity := clock env 1\<rparr>) @
                      [\<lparr>h_role = ''user'', h_content = message, h_timestamp = clock env 2\<rparr>]\<rparr>"
    let ?w2 = "(ensure_session env w (new_session_id env session))
          \<lparr>sessions := (sessions (ensure_session env w (new_session_id env session)))
             (new_session_id env session \<mapsto> ?ses2)\<rparr>"
    assume b: "stream_branch env ?w2 message (new_session_id env session)
                 (conversation_history ?ses2) = (snaps, fc, w3)"
      and "stream_chat env w message session =
       (snaps,
        if fc \<noteq> [] then
          w3\<lparr>sessions := (sessions w3)(new_session_id env session \<mapsto>
               ?ses2\<lparr>conversation_history := conversation_history ?ses2 @
                 [\<lparr>h_role = ''assistant'', h_content = fc, h_timestamp = clock env 3\<rparr>]\<rparr>)\<rparr>
        else w3)"
    then have "fst (stream_chat env w message session)
        = fst (stream_branch env ?w2 message (new_session_id env session)
                 (conversation_history ?ses2))" by simp
    then show ?thesis by blast
  qed
qed


text \<open>
  C1 (amended). In every run of \<open>stream_chat\<close> that emits a snapshot, the last snapshot
  has progress 100 and \<open>complete = true\<close> and every earlier one has progress below 100
  and is not marked complete. The progress of the answer's snapshots never decreases,
  nor does the progress of the error message's snapshots; a run without error snapshot
  is non-decreasing as a whole. Whenever the graph raises on the administrative branch,
  or the model raises on the general branch (at the start or in the middle of its
  stream), the branch emits at least one snapshot and ends with an error snapshot that
  has \<open>complete = true\<close>; and the snapshots of \<open>stream_chat\<close> are those of its branch.
\<close>

theorem stream_chat_progress:
  "(fst (stream_chat env w message session) \<noteq> [] \<longrightarrow>
        progress (last (fst (stream_chat env w message session))) = 100
      \<and> complete (last (fst (stream_chat env w message session))) = Some True
      \<and> (\<forall>s \<in> set (butlast (fst (stream_chat env w message session))).
            progress s < 100 \<and> complete s \<noteq> Some True))
   \<and> sorted (map progress (answer_part (fst (stream_chat env w message session))))
   \<and> sorted (map progress (error_part (fst (stream_chat env w message session))))
   \<and> ((\<forall>s \<in> set (fst (stream_chat env w message session)). error s \<noteq> Some True) \<longrightarrow>
        sorted (map progress (fst (stream_chat env w message session))))
   \<and> ((\<exists>s \<in> set (fst (stream_chat env w message session)). error s = Some True) \<longrightarrow>
        finished (fst (stream_chat env w message session))
      \<and> error (last (fst (stream_chat env w message session))) = Some True)
   \<and> ((\<exists>keyword \<in> set admin_keywords. str_in keyword (lower message))
        \<and> run_graph env w0 (initial_state message ''campus_admin'' sid0) = (Inl e, w') \<longrightarrow>
        finished (fst (stream_branch env w0 message sid0 history))
      \<and> error (last (fst (stream_branch env w0 message sid0 history))) = Some True)
   \<and> (\<not> (\<exists>keyword \<in> set admin_keywords. str_in keyword (lower message))
        \<and> llm_astream env = Some astream
        \<and> snd (astream [HumanMessage (build_prompt message (get_context env message) history)])
            = Some e \<longrightarrow>
        finished (fst (stream_branch env w0 message sid0 history))
      \<and> error (last (fst (stream_branch env w0 message sid0 history))) = Some True)
   \<and> (\<not> (\<exists>keyword \<in> set admin_keywords. str_in keyword (lower message))
        \<and> llm_astream env = None
        \<and> llm_ainvoke env [HumanMessage (build_prompt message (get_context env message) history)]
            = Inl e \<longrightarrow>
        finished (fst (stream_branch env w0 message sid0 history))
      \<and> error (last (fst (stream_branch env w0 message sid0 history))) = Some True)
   \<and> (sessions (ensure_session env w (new_session_id env session)) (new_session_id env session)
         \<noteq> None \<longrightarrow>
        (\<exists>w2 history2.
           fst (stream_chat env w message session)
             = fst (stream_branch env w2 message (new_session_id env session) history2)))"
proof (intro conjI)
  let ?L = "fst (stream_chat env w message session)"
  have ok: "branch_ok ?L" by (rule stream_chat_ok)
  then show "?L \<noteq> [] \<longrightarrow>
        progress (last ?L) = 100 \<and> complete (last ?L) = Some True
      \<and> (\<forall>s \<in> set (butlast ?L). progress s < 100 \<and> complete s \<noteq> Some True)"
    unfolding branch_ok_def finished_def by blast
  from ok show "sorted (map progress (answer_part ?L))" unfolding branch_ok_def by blast
  from ok show "sorted (map progress (error_part ?L))" unfolding branch_ok_def by blast
  show "(\<forall>s \<in> set ?L. error s \<noteq> Some True) \<longrightarrow> sorted (map progress ?L)"
  proof
    assume "\<forall>s \<in> set ?L. error s \<noteq> Some True"
    then have "answer_part ?L = ?L" unfolding answer_part_def by (simp only: filter_True)
    with ok show "sorted (map progress ?L)" unfolding branch_ok_def by simp
  qed
  from ok show "(\<exists>s \<in> set ?L. error s = Some True) \<longrightarrow>
        finished ?L \<and> error (last ?L) = Some True"
    unfolding branch_ok_def by blast
next
  show "(\<exists>keyword \<in> set admin_keywords. str_in keyword (lower message))
        \<and> run_graph env w0 (initial_state message ''campus_admin'' sid0) = (Inl e, w') \<longrightarrow>
        finished (fst (stream_branch env w0 message sid0 history))
      \<and> error (last (fst (stream_branch env w0 message sid0 history))) = Some True"
  proof
    assume h: "(\<exists>keyword \<in> set admin_keywords. str_in keyword (lower message))
        \<and> run_graph env w0 (initial_state message ''campus_admin'' sid0) = (Inl e, w')"
    then have r: "run_graph env w0 (initial_state message ''campus_admin'' sid0) = (Inl e, w')"
      by simp
    from h have b: "stream_branch env w0 message sid0 history = stream_admin env w0 message sid0"
      by (simp add: stream_branch_def)
    note p = stream_admin_raised [OF r]
    from p(1) have "fst (stream_admin env w0 message sid0) \<noteq> []" by (simp add: finished_def)
    with p(2) have "error (last (fst (stream_admin env w0 message sid0))) = Some True" by simp
    with p(1) show "finished (fst (stream_branch env w0 message sid0 history))
      \<and> error (last (fst (stream_branch env w0 message sid0 history))) = Some True"
      unfolding b by blast
  qed
next
  show "\<not> (\<exists>keyword \<in> set admin_keywords. str_in keyword (lower message))
        \<and> llm_astream env = Some astream
        \<and> snd (astream [HumanMessage (build_prompt message (get_context env message) history)])
            = Some e \<longrightarrow>
        finished (fst (stream_branch env w0 message sid0 history))
      \<and> error (last (fst (stream_branch env w0 message sid0 history))) = Some True"
  proof
    assume h: "\<not> (\<exists>keyword \<in> set admin_keywords. str_in keyword (lower message))
        \<and> llm_astream env = Some astream
        \<and> snd (astream [HumanMessage (build_prompt message (get_context env message) history)])
            = Some e"
    then have b: "stream_branch env w0 message sid0 history
        = stream_general env w0 message sid0 history"
      by (simp add: stream_branch_def)
    from h show "finished (fst (stream_branch env w0 message sid0 history))
      \<and> error (last (fst (stream_branch env w0 message sid0 history))) = Some True"
      unfolding b
      using stream_general_raised [where env = env and astream = astream and message = message
        and history = history and e = e and w = w0 and sid = sid0] by blast
  qed
next
  show "\<not> (\<exists>keyword \<in> set admin_keywords. str_in keyword (lower message))
        \<and> llm_astream env = None
        \<and> llm_ainvoke env [HumanMessage (build_prompt message (get_context env message) history)]
            = Inl e \<longrightarrow>
        finished (fst (stream_branch env w0 message sid0 history))
      \<and> error (last (fst (stream_branch env w0 message sid0 history))) = Some True"
  proof
    assume h: "\<not> (\<exists>keyword \<in> set admin_keywords. str_in keyword (lower message))
        \<and> llm_astream env = None
        \<and> llm_ainvoke env [HumanMessage (build_prompt message (get_context env message) history)]
            = Inl e"
    then have b: "stream_branch env w0 message sid0 history
        = stream_general env w0 message sid0 history"
      by (simp add: stream_branch_def)
    from h show "finished (fst (stream_branch env w0 message sid0 history))
      \<and> error (last (fst (stream_branch env w0 message sid0 history))) = Some True"
      unfolding b
      using stream_general_raised [where env = env and astream = astream and message = message
        and history = history and e = e and w = w0 and sid = sid0] by blast
  qed
next
  show "sessions (ensure_session env w (new_session_id env session)) (new_session_id env session)
         \<noteq> None \<longrightarrow>
        (\<exists>w2 history2.
           fst (stream_chat env w message session)
             = fst (stream_branch env w2 message (new_session_id env session) history2))"
    using stream_chat_link by blast
qed

section \<open>Conversation history\<close>



section \<open>The interfaces on concrete turns\<close>

lemmas demo_defs = demo_env_def demo_world_def ali_def sara_def

lemmas turn_defs = stream_chat_def chat_def chat_body_def new_session_id_def truthy_def
  ensure_session_def create_session_def stream_branch_def stream_general_def stream_admin_def
  admin_keywords_def nust_keywords_def lower_def lower_char_def history_of_def error_stream_def
  key_error_def run_graph_def classify_query_def initial_state_def call_model_def
  should_continue_def last_message_def response_of_def Let_def





theorem stream_chat_progress_witness:
  "map progress (fst (stream_chat demo_env demo_world ''hello'' (Some ''s1''))) = [5, 10, 100]
   \<and> progress (last (fst (stream_chat demo_env demo_world ''hello'' (Some ''s1'')))) = 100
   \<and> complete (last (fst (stream_chat demo_env demo_world ''hello'' (Some ''s1'')))) = Some True
   \<and> sorted (map progress (fst (stream_chat demo_env demo_world ''hello'' (Some ''s1''))))
   \<and> finished (fst (stream_chat
        (demo_env\<lparr>llm_astream := Some (\<lambda>msgs. ([''Hello''], Some ''connection reset''))\<rparr>)
        demo_world ''hello'' (Some ''s1'')))
   \<and> error (last (fst (stream_chat
        (demo_env\<lparr>llm_astream := Some (\<lambda>msgs. ([''Hello''], Some ''connection reset''))\<rparr>)
        demo_world ''hello'' (Some ''s1'')))) = Some True"
proof -
  let ?L = "fst (stream_chat demo_env demo_world ''hello'' (Some ''s1''))"
  let ?ex = "demo_env\<lparr>llm_astream := Some (\<lambda>msgs. ([''Hello''], Some ''connection reset''))\<rparr>"
  let ?M = "fst (stream_chat ?ex demo_world ''hello'' (Some ''s1''))"
  have p: "map progress ?L = [5, 10, 100]" by (simp add: demo_defs turn_defs)
  have e: "map error ?L = [None, None, None]" by (simp add: demo_defs turn_defs)
  from p have ne: "?L \<noteq> []" by auto
  have "set (map error ?L) = error ` set ?L" by simp
  with e have noerr: "\<forall>s \<in> set ?L. error s \<noteq> Some True" by auto
  have "error (hd ?M) = None \<and> error (?M ! 1) = Some True \<and> 1 < length ?M"
    by (simp add: demo_defs turn_defs upt_rec)
  then have "?M ! 1 \<in> set ?M \<and> error (?M ! 1) = Some True" by simp
  then have err: "\<exists>s \<in> set ?M. error s = Some True" by blast
  from ne noerr stream_chat_progress [where env = demo_env and w = demo_world
      and message = "''hello''" and session = "Some ''s1''"]
  have 1: "progress (last ?L) = 100 \<and> complete (last ?L) = Some True \<and> sorted (map progress ?L)"
    by blast
  from err stream_chat_progress [where env = ?ex and w = demo_world
      and message = "''hello''" and session = "Some ''s1''"]
  have 2: "finished ?M \<and> error (last ?M) = Some True" by blast
  from p 1 2 show ?thesis by blast
qed

text \<open>
  The claim as first stated fails when the model's stream breaks after a chunk: the
  chunk was reported with progress 5, and the error message that follows starts again
  from 100/42.
\<close>

theorem broken_stream_progress_counterexample:
  "progress (fst (stream_chat
       (demo_env\<lparr>llm_astream := Some (\<lambda>msgs. ([''Hello''], Some ''x''))\<rparr>)
       demo_world ''hello'' (Some ''s1'')) ! 0) = 5
   \<and> progress (fst (stream_chat
       (demo_env\<lparr>llm_astream := Some (\<lambda>msgs. ([''Hello''], Some ''x''))\<rparr>)
       demo_world ''hello'' (Some ''s1'')) ! 1) = 50 / 21
   \<and> \<not> sorted (map progress (fst (stream_chat
       (demo_env\<lparr>llm_astream := Some (\<lambda>msgs. ([''Hello''], Some ''x''))\<rparr>)
       demo_world ''hello'' (Some ''s1''))))"
proof -
  let ?M = "fst (stream_chat
       (demo_env\<lparr>llm_astream := Some (\<lambda>msgs. ([''Hello''], Some ''x''))\<rparr>)
       demo_world ''hello'' (Some ''s1''))"
  have a: "progress (?M ! 0) = 5" and b: "progress (?M ! 1) = 50 / 21" and l: "1 < length ?M"
    by (simp_all add: demo_defs turn_defs upt_rec)
  have "\<not> sorted (map progress ?M)"
  proof
    assume "sorted (map progress ?M)"
    moreover have "(0::nat) \<le> 1" by simp
    moreover from l have "1 < length (map progress ?M)" by simp
    ultimately have le: "map progress ?M ! 0 \<le> map progress ?M ! 1" by (rule sorted_nth_mono)
    from l have "0 < length ?M" by linarith
    then have "map progress ?M ! 0 = progress (?M ! 0)" by (rule nth_map)
    with a have m0: "map progress ?M ! 0 = 5" by (simp only:)
    from l have "map progress ?M ! 1 = progress (?M ! 1)" by (rule nth_map)
    with b have m1: "map progress ?M ! 1 = 50 / 21" by (simp only:)
    from le have "(5::rat) \<le> 50 / 21" unfolding m0 m1 .
    then show False by simp
  qed
  with a b show ?thesis by blast
qed

end
